theory Spec2Isabelle
  imports Main
begin

section \<open>Strings of the host language\<close>

text \<open>
  The parser service (\<open>src/services/parser.service.ts\<close>) works on JavaScript strings,
  which are sequences of UTF-16 code units. A code unit is modelled as a natural number
  and a string as a list of them; \<open>length\<close>, \<open>slice\<close> and the regular expressions of
  the source all count code units. String literals of the source that are plain ASCII
  are written with \<open>str\<close>.
\<close>

type_synonym jsstring = "nat list"

definition str :: "string \<Rightarrow> jsstring" where
  "str s = map of_char s"

definition isLineTerminator :: "nat \<Rightarrow> bool" where
  "isLineTerminator c = (c = 10 \<or> c = 13 \<or> c = 8232 \<or> c = 8233)"

definition isWhiteSpace :: "nat \<Rightarrow> bool" where
  "isWhiteSpace c = (c = 9 \<or> c = 11 \<or> c = 12 \<or> c = 32 \<or> c = 160 \<or> c = 5760
     \<or> (8192 \<le> c \<and> c \<le> 8202) \<or> c = 8239 \<or> c = 8287 \<or> c = 12288 \<or> c = 65279)"

text \<open>The class \<open>\s\<close>, also what \<open>trim\<close> strips: white space and line terminators.\<close>

definition isSpace :: "nat \<Rightarrow> bool" where
  "isSpace c = (isWhiteSpace c \<or> isLineTerminator c)"

definition isDigit :: "nat \<Rightarrow> bool" where
  "isDigit c = (48 \<le> c \<and> c \<le> 57)"

definition isWordChar :: "nat \<Rightarrow> bool" where
  "isWordChar c = ((97 \<le> c \<and> c \<le> 122) \<or> (65 \<le> c \<and> c \<le> 90) \<or> isDigit c \<or> c = 95)"

text \<open>
  Case conversion is modelled on the letters A-Z and a-z. The patterns of the source
  hold ASCII characters and the en dash (code unit 8211) only, and without the \<open>u\<close>
  flag a code unit above 127 is never canonicalised to an ASCII one, so for matching
  with the \<open>i\<close> flag this is what the language defines. For \<open>toLowerCase\<close> and
  \<open>toUpperCase\<close> the Unicode mappings of code units above 127 are left out of the
  model: such code units are kept as they are.
\<close>

definition upperA :: "nat \<Rightarrow> nat" where
  "upperA c = (if 97 \<le> c \<and> c \<le> 122 then c - 32 else c)"

definition lowerA :: "nat \<Rightarrow> nat" where
  "lowerA c = (if 65 \<le> c \<and> c \<le> 90 then c + 32 else c)"

definition toLowerCase :: "jsstring \<Rightarrow> jsstring" where
  "toLowerCase s = map lowerA s"

definition toUpperCase :: "jsstring \<Rightarrow> jsstring" where
  "toUpperCase s = map upperA s"

definition trim :: "jsstring \<Rightarrow> jsstring" where
  "trim s = rev (dropWhile isSpace (rev (dropWhile isSpace s)))"

text \<open>\<open>s.includes(t)\<close>: \<open>t\<close> occurs in \<open>s\<close> as a contiguous run.\<close>

fun starts_with :: "jsstring \<Rightarrow> jsstring \<Rightarrow> bool" where
  "starts_with s [] = True"
| "starts_with [] (b # t) = False"
| "starts_with (a # s) (b # t) = (a = b \<and> starts_with s t)"

fun str_includes :: "jsstring \<Rightarrow> jsstring \<Rightarrow> bool" where
  "str_includes [] t = (t = [])"
| "str_includes (a # s) t = (starts_with (a # s) t \<or> str_includes s t)"

text \<open>\<open>s.split(sep)[0]\<close> for a one-character separator: the text before its first occurrence.\<close>

definition first_piece :: "nat \<Rightarrow> jsstring \<Rightarrow> jsstring" where
  "first_piece sep s = takeWhile (\<lambda>c. c \<noteq> sep) s"

section \<open>Regular expressions\<close>

text \<open>
  The syntax of the regular expressions the source uses: literal text, the dot,
  character classes, sequence, alternation, quantifiers (greedy or lazy, with a minimum
  and an optional maximum), capture groups and the assertions \<open>^\<close>, \<open>$\<close> and \<open>\b\<close>.
  The source uses no lookahead and no backreference, and no capture group stands under
  a quantifier.
\<close>

datatype citem = CChar nat | CRange nat nat | CSpace | CWord | CDigit

datatype regex =
    Lit jsstring
  | Dot
  | Cls bool "citem list"
  | Seq "regex list"
  | Alt "regex list"
  | Rep nat "nat option" bool regex
  | Cap nat regex
  | Bol
  | Eol
  | WordB

text \<open>
  A matcher state: the code unit before the current position (none at the start of the
  input), the input from the current position on, and the captures made so far.
\<close>

datatype mstate = MState (prevc: "nat option") (rest: jsstring) (caps: "(nat \<times> jsstring) list")

fun citem_match :: "bool \<Rightarrow> citem \<Rightarrow> nat \<Rightarrow> bool" where
  "citem_match ic (CChar a) c = (if ic then upperA a = upperA c else a = c)"
| "citem_match ic (CRange lo hi) c =
     (if ic then (lo \<le> upperA c \<and> upperA c \<le> hi) \<or> (lo \<le> lowerA c \<and> lowerA c \<le> hi)
      else lo \<le> c \<and> c \<le> hi)"
| "citem_match ic CSpace c = isSpace c"
| "citem_match ic CWord c = isWordChar c"
| "citem_match ic CDigit c = isDigit c"

fun lit_run :: "bool \<Rightarrow> jsstring \<Rightarrow> mstate \<Rightarrow> mstate list" where
  "lit_run ic [] x = [x]"
| "lit_run ic (a # as) (MState p [] cs) = []"
| "lit_run ic (a # as) (MState p (c # r) cs) =
     (if (if ic then upperA a = upperA c else a = c)
      then lit_run ic as (MState (Some c) r cs) else [])"

fun step_char :: "(nat \<Rightarrow> bool) \<Rightarrow> mstate \<Rightarrow> mstate list" where
  "step_char P (MState p [] cs) = []"
| "step_char P (MState p (c # r) cs) = (if P c then [MState (Some c) r cs] else [])"

text \<open>
  A matcher maps a state to the states it can end in, in the order in which a
  backtracking matcher tries them; the first one is the match the language returns.
  \<open>rep\<close> is the language's RepeatMatcher: \<open>mn\<close> iterations are required, at most \<open>mx\<close>
  are made, an iteration that is not required and consumes nothing is rejected, and a
  greedy quantifier tries another iteration before it tries to stop.
\<close>

function rep :: "(mstate \<Rightarrow> mstate list) \<Rightarrow> nat \<Rightarrow> nat option \<Rightarrow> bool \<Rightarrow> mstate \<Rightarrow> mstate list"
  and rep_each :: "(mstate \<Rightarrow> mstate list) \<Rightarrow> nat \<Rightarrow> nat option \<Rightarrow> bool \<Rightarrow> mstate
     \<Rightarrow> mstate list \<Rightarrow> mstate list"
where
  "rep m mn mx g x =
     (if mx = Some 0 then [x]
      else if mn \<noteq> 0 then rep_each m mn mx g x (m x)
      else if g then rep_each m mn mx g x (m x) @ [x]
      else x # rep_each m mn mx g x (m x))"
| "rep_each m mn mx g x [] = []"
| "rep_each m mn mx g x (y # ys) =
     (if mn = 0 \<and> length (rest x) \<le> length (rest y) then []
      else rep m (mn - 1) (map_option (\<lambda>k. k - 1) mx) g y) @ rep_each m mn mx g x ys"
  by pat_completeness auto
termination
  by (relation "inv_image (less_than <*lex*> less_than <*lex*> less_than)
     (\<lambda>v. case v of Inl (m, mn, mx, g, x) \<Rightarrow> (mn, length (rest x), Suc (length (m x)))
                  | Inr (m, mn, mx, g, x, ys) \<Rightarrow> (mn, length (rest x), length ys))")
    auto

declare rep.simps [simp del]

fun run :: "bool \<Rightarrow> bool \<Rightarrow> regex \<Rightarrow> mstate \<Rightarrow> mstate list" where
  "run ic ml (Lit w) x = lit_run ic w x"
| "run ic ml Dot x = step_char (\<lambda>c. \<not> isLineTerminator c) x"
| "run ic ml (Cls neg items) x =
     step_char (\<lambda>c. list_ex (\<lambda>i. citem_match ic i c) items \<noteq> neg) x"
| "run ic ml (Seq []) x = [x]"
| "run ic ml (Seq (r # rs)) x = concat (map (run ic ml (Seq rs)) (run ic ml r x))"
| "run ic ml (Alt []) x = []"
| "run ic ml (Alt (r # rs)) x = run ic ml r x @ run ic ml (Alt rs) x"
| "run ic ml (Rep mn mx g r) x = rep (run ic ml r) mn mx g x"
| "run ic ml (Cap n r) x =
     map (\<lambda>y. MState (prevc y) (rest y)
                ((n, take (length (rest x) - length (rest y)) (rest x)) # caps y))
       (run ic ml r x)"
| "run ic ml Bol x =
     (case prevc x of None \<Rightarrow> [x]
      | Some c \<Rightarrow> if ml \<and> isLineTerminator c then [x] else [])"
| "run ic ml Eol x =
     (case rest x of [] \<Rightarrow> [x]
      | c # _ \<Rightarrow> if ml \<and> isLineTerminator c then [x] else [])"
| "run ic ml WordB x =
     (if (case prevc x of None \<Rightarrow> False | Some c \<Rightarrow> isWordChar c)
         \<noteq> (case rest x of [] \<Rightarrow> False | c # _ \<Rightarrow> isWordChar c) then [x] else [])"

text \<open>A regular expression object: its pattern and its flags, as in \<open>/pattern/flags\<close>.\<close>

datatype regexp = RegExp (source: regex) (flags: string)

definition ignoreCase :: "regexp \<Rightarrow> bool" where
  "ignoreCase re = (CHR ''i'' \<in> set (flags re))"

definition multiline :: "regexp \<Rightarrow> bool" where
  "multiline re = (CHR ''m'' \<in> set (flags re))"

definition global :: "regexp \<Rightarrow> bool" where
  "global re = (CHR ''g'' \<in> set (flags re))"

text \<open>
  A successful match: the input before it, the matched text (\<open>match[0]\<close>), the captures
  and the input after it.
\<close>

record rmatch =
  m_before :: jsstring
  m_text :: jsstring
  m_groups :: "(nat \<times> jsstring) list"
  m_after :: jsstring

text \<open>
  The search for the leftmost match, from the current position on: \<open>pre\<close> is the input
  already passed and \<open>p\<close> the code unit before the current position.
\<close>

fun search :: "bool \<Rightarrow> bool \<Rightarrow> regex \<Rightarrow> jsstring \<Rightarrow> nat option \<Rightarrow> jsstring \<Rightarrow> rmatch option" where
  "search ic ml r pre p [] =
     (case run ic ml r (MState p [] []) of
        [] \<Rightarrow> None
      | y # _ \<Rightarrow> Some \<lparr>m_before = pre, m_text = [], m_groups = caps y, m_after = []\<rparr>)"
| "search ic ml r pre p (c # s) =
     (case run ic ml r (MState p (c # s) []) of
        [] \<Rightarrow> search ic ml r (pre @ [c]) (Some c) s
      | y # _ \<Rightarrow> Some \<lparr>m_before = pre,
                       m_text = take (Suc (length s) - length (rest y)) (c # s),
                       m_groups = caps y, m_after = rest y\<rparr>)"

text \<open>\<open>re.exec(s)\<close> and \<open>s.match(re)\<close> for a pattern without the \<open>g\<close> flag, and \<open>re.test(s)\<close>.\<close>

definition exec :: "regexp \<Rightarrow> jsstring \<Rightarrow> rmatch option" where
  "exec re s = search (ignoreCase re) (multiline re) (source re) [] None s"

definition test :: "regexp \<Rightarrow> jsstring \<Rightarrow> bool" where
  "test re s = (exec re s \<noteq> None)"

text \<open>\<open>match[n]\<close>: the text of capture group \<open>n\<close>, or nothing (\<open>undefined\<close>).\<close>

definition capture :: "rmatch \<Rightarrow> nat \<Rightarrow> jsstring option" where
  "capture m n = map_of (m_groups m) n"


subsection \<open>Facts about the matcher\<close>

text \<open>
  With the \<open>i\<close> flag the language takes a code unit to be in a range when some code
  unit of the range has the same canonical (upper-case) form; \<open>citem_match\<close> computes
  this from the two case forms of the code unit.
\<close>

lemma citem_range_canon:
  "citem_match True (CRange lo hi) c = (\<exists>a. lo \<le> a \<and> a \<le> hi \<and> upperA a = upperA c)"
proof
  assume "citem_match True (CRange lo hi) c"
  then have "(lo \<le> upperA c \<and> upperA c \<le> hi) \<or> (lo \<le> lowerA c \<and> lowerA c \<le> hi)"
    by simp
  then show "\<exists>a. lo \<le> a \<and> a \<le> hi \<and> upperA a = upperA c"
  proof
    assume "lo \<le> upperA c \<and> upperA c \<le> hi"
    moreover have "upperA (upperA c) = upperA c" by (auto simp: upperA_def)
    ultimately show ?thesis by blast
  next
    assume "lo \<le> lowerA c \<and> lowerA c \<le> hi"
    moreover have "upperA (lowerA c) = upperA c" by (auto simp: upperA_def lowerA_def)
    ultimately show ?thesis by blast
  qed
next
  assume "\<exists>a. lo \<le> a \<and> a \<le> hi \<and> upperA a = upperA c"
  then obtain a where a: "lo \<le> a" "a \<le> hi" "upperA a = upperA c" by blast
  from a(3) have "a = upperA c \<or> a = lowerA c"
    by (auto simp: upperA_def lowerA_def split: if_splits)
  with a(1,2) show "citem_match True (CRange lo hi) c" by auto
qed

text \<open>
  A relation that is reflexive, transitive and holds across one run of the repeated
  matcher holds across the whole repetition.
\<close>

lemma rep_rel_aux:
  assumes rf: "\<And>x. R x x" and tr: "\<And>x y z. R x y \<Longrightarrow> R y z \<Longrightarrow> R x z"
  shows "(\<forall>a b. b \<in> set (m a) \<longrightarrow> R a b) \<Longrightarrow> y \<in> set (rep m mn mx g x) \<Longrightarrow> R x y"
    and "(\<forall>a b. b \<in> set (m a) \<longrightarrow> R a b) \<Longrightarrow> y \<in> set (rep_each m mn mx g x ys)
          \<Longrightarrow> (\<forall>z\<in>set ys. R x z) \<Longrightarrow> R x y"
proof (induction m mn mx g x and m mn mx g x ys arbitrary: y and y rule: rep_rep_each.induct)
  case (1 m mn mx g x)
  note st = "1.prems"(1)
  note yin = "1.prems"(2)
  have all: "\<forall>z\<in>set (m x). R x z"
    using st by blast
  show ?case
  proof (cases "mx = Some 0")
    case True
    with yin have "y = x" by (simp add: rep.simps)
    then show ?thesis using rf by simp
  next
    case nz: False
    show ?thesis
    proof (cases "mn = 0")
      case True
      with nz yin have "y = x \<or> y \<in> set (rep_each m mn mx g x (m x))"
        by (auto simp: rep.simps split: if_splits)
      then show ?thesis
      proof
        assume "y = x"
        then show ?thesis using rf by simp
      next
        assume mem: "y \<in> set (rep_each m mn mx g x (m x))"
        show ?thesis
        proof (cases g)
          case True
          from "1.IH"(2)[OF nz _ True st mem all] \<open>mn = 0\<close> show ?thesis by blast
        next
          case False
          from "1.IH"(3)[OF nz _ False st mem all] \<open>mn = 0\<close> show ?thesis by blast
        qed
      qed
    next
      case False
      with nz yin have mem: "y \<in> set (rep_each m mn mx g x (m x))"
        by (simp add: rep.simps)
      from "1.IH"(1)[OF nz False st mem all] show ?thesis .
    qed
  qed
next
  case (2 m mn mx g x)
  then show ?case by simp
next
  case (3 m mn mx g x y' ys)
  note st = "3.prems"(1)
  from "3.prems"(2) have
    "(\<not> (mn = 0 \<and> length (rest x) \<le> length (rest y')) \<and>
       y \<in> set (rep m (mn - 1) (map_option (\<lambda>k. k - 1) mx) g y'))
     \<or> y \<in> set (rep_each m mn mx g x ys)"
    by (auto split: if_splits)
  then show ?case
  proof
    assume a: "\<not> (mn = 0 \<and> length (rest x) \<le> length (rest y')) \<and>
       y \<in> set (rep m (mn - 1) (map_option (\<lambda>k. k - 1) mx) g y')"
    from "3.IH"(1)[OF _ st] a have "R y' y" by blast
    moreover have "R x y'" using "3.prems"(3) by simp
    ultimately show ?thesis using tr by blast
  next
    assume a: "y \<in> set (rep_each m mn mx g x ys)"
    from "3.IH"(2)[OF st a] "3.prems"(3) show ?thesis by simp
  qed
qed

lemma rep_rel:
  assumes "\<And>x. R x x" and "\<And>x y z. R x y \<Longrightarrow> R y z \<Longrightarrow> R x z"
    and "\<And>a b. b \<in> set (m a) \<Longrightarrow> R a b"
    and "y \<in> set (rep m mn mx g x)"
  shows "R x y"
  using rep_rel_aux(1)[of R m y mn mx g x] assms by blast

text \<open>
  A matcher only moves forward in the input and only adds captures.
\<close>

definition extends :: "mstate \<Rightarrow> mstate \<Rightarrow> bool" where
  "extends x y = ((\<exists>w. rest x = w @ rest y) \<and> (\<exists>cs. caps y = cs @ caps x))"

lemma extends_refl: "extends x x"
  by (simp add: extends_def)

lemma extends_trans: "extends x y \<Longrightarrow> extends y z \<Longrightarrow> extends x z"
  by (auto simp: extends_def)

lemma lit_run_extends: "y \<in> set (lit_run ic w x) \<Longrightarrow> extends x y"
proof (induction ic w x rule: lit_run.induct)
  case (3 ic a as p c r cs)
  then show ?case
    by (auto simp: extends_def split: if_splits)
qed (auto simp: extends_def)

lemma step_char_extends: "y \<in> set (step_char P x) \<Longrightarrow> extends x y"
  by (induction P x rule: step_char.induct) (auto simp: extends_def split: if_splits)

lemma run_extends: "y \<in> set (run ic ml r x) \<Longrightarrow> extends x y"
proof (induction ic ml r x arbitrary: y rule: run.induct)
  case (5 ic ml r rs x)
  then show ?case by (auto intro: extends_trans)
next
  case (8 ic ml mn mx g r x)
  then show ?case
    using rep_rel[of extends "run ic ml r" y mn mx g x] extends_refl extends_trans
    by auto
next
  case (9 ic ml n r x)
  then show ?case by (fastforce simp: extends_def)
qed (auto simp: lit_run_extends step_char_extends extends_refl split: option.splits list.splits if_splits)


lemma run_length: "y \<in> set (run ic ml r x) \<Longrightarrow> length (rest y) \<le> length (rest x)"
  using run_extends[of y ic ml r x] by (auto simp: extends_def)

lemma run_take_rest:
  "y \<in> set (run ic ml r x) \<Longrightarrow> take (length (rest x) - length (rest y)) (rest x) @ rest y = rest x"
  using run_extends[of y ic ml r x] by (auto simp: extends_def)






text \<open>A pattern in which capture group \<open>n\<close> takes part in every match.\<close>

fun sets_cap :: "nat \<Rightarrow> regex \<Rightarrow> bool" where
  "sets_cap n (Cap k r) = (k = n \<or> sets_cap n r)"
| "sets_cap n (Seq []) = False"
| "sets_cap n (Seq (r # rs)) = (sets_cap n r \<or> sets_cap n (Seq rs))"
| "sets_cap n (Alt []) = True"
| "sets_cap n (Alt (r # rs)) = (sets_cap n r \<and> sets_cap n (Alt rs))"
| "sets_cap n r = False"

lemma extends_caps: "extends x y \<Longrightarrow> map_of (caps x) n \<noteq> None \<Longrightarrow> map_of (caps y) n \<noteq> None"
  by (auto simp: extends_def map_add_def split: option.splits)

lemma run_sets_cap:
  "sets_cap n r \<Longrightarrow> y \<in> set (run ic ml r x) \<Longrightarrow> map_of (caps y) n \<noteq> None"
proof (induction ic ml r x arbitrary: y rule: run.induct)
  case (5 ic ml r rs x)
  from "5.prems"(2) obtain z where z: "z \<in> set (run ic ml r x)" "y \<in> set (run ic ml (Seq rs) z)"
    by auto
  from "5.prems"(1) have "sets_cap n r \<or> sets_cap n (Seq rs)" by simp
  then show ?case
  proof
    assume "sets_cap n r"
    with "5.IH"(1) z(1) have "map_of (caps z) n \<noteq> None" by blast
    with extends_caps[OF run_extends[OF z(2)]] show ?thesis by blast
  next
    assume "sets_cap n (Seq rs)"
    with "5.IH"(2) z show ?thesis by blast
  qed
next
  case (9 ic ml k r x)
  then show ?case by auto
qed auto

lemma search_sound:
  "search ic ml r pre p s = Some m \<Longrightarrow>
     (\<exists>q t y ys. run ic ml r (MState q t []) = y # ys \<and> m_groups m = caps y \<and> m_after m = rest y
        \<and> m_text m @ m_after m = t \<and> m_before m @ t = pre @ s)"
proof (induction ic ml r pre p s rule: search.induct)
  case (1 ic ml r pre p)
  show ?case
  proof (cases "run ic ml r (MState p [] [])")
    case Nil
    with "1.prems" show ?thesis by simp
  next
    case (Cons y ys)
    then have "y \<in> set (run ic ml r (MState p [] []))" by simp
    from run_length[OF this] have "rest y = []" by simp
    with Cons "1.prems" show ?thesis
      by (intro exI[of _ p] exI[of _ "[]"] exI[of _ y] exI[of _ ys]) auto
  qed
next
  case (2 ic ml r pre p c s)
  show ?case
  proof (cases "run ic ml r (MState p (c # s) [])")
    case Nil
    with "2.prems" "2.IH" show ?thesis by simp
  next
    case (Cons y ys)
    then have "y \<in> set (run ic ml r (MState p (c # s) []))" by simp
    from run_take_rest[OF this] Cons "2.prems" show ?thesis
      by (intro exI[of _ p] exI[of _ "c # s"] exI[of _ y] exI[of _ ys]) auto
  qed
qed

lemma search_decomp:
  "search ic ml r pre p s = Some m \<Longrightarrow> m_before m @ m_text m @ m_after m = pre @ s"
  using search_sound[of ic ml r pre p s m] by auto

lemma search_sets_cap:
  "search ic ml r pre p s = Some m \<Longrightarrow> sets_cap n r \<Longrightarrow> map_of (m_groups m) n \<noteq> None"
  using search_sound[of ic ml r pre p s m] run_sets_cap[of n r _ ic ml]
  by (metis list.set_intros(1))



subsection \<open>String methods that take a regular expression\<close>

text \<open>
  \<open>s.replace(re, repl)\<close> for a replacement text without \<open>$\<close> patterns (the source
  replaces by \<open>""\<close> and \<open>" "\<close> only). With the \<open>g\<close> flag every match is replaced, the
  search going on after each match (one code unit further after an empty match);
  without it, the first match only.
\<close>

function replace_all :: "bool \<Rightarrow> bool \<Rightarrow> regex \<Rightarrow> nat option \<Rightarrow> jsstring \<Rightarrow> jsstring \<Rightarrow> jsstring" where
  "replace_all ic ml r p s repl =
     (case search ic ml r [] p s of
        None \<Rightarrow> s
      | Some m \<Rightarrow>
          (if m_text m = [] then
             (case m_after m of
                [] \<Rightarrow> m_before m @ repl
              | c # t \<Rightarrow> m_before m @ repl @ c # replace_all ic ml r (Some c) t repl)
           else m_before m @ repl @ replace_all ic ml r (Some (last (m_text m))) (m_after m) repl))"
  by pat_completeness auto
termination
proof (relation "measure (\<lambda>(ic, ml, r, p, s, repl). length s)", goal_cases)
  case 1
  show ?case by simp
next
  case (2 ic ml r p s repl m c t)
  from search_decomp[OF 2(1)] 2(2,3) have "m_before m @ c # t = s" by simp
  then have "length t < length s" by auto
  then show ?case by simp
next
  case (3 ic ml r p s repl m)
  from search_decomp[OF 3(1)] have "length (m_before m) + length (m_text m) + length (m_after m) = length s"
    by (metis append.assoc append_Nil length_append)
  with 3(2) show ?case by (cases "m_text m") auto
qed

declare replace_all.simps [simp del]

definition str_replace :: "jsstring \<Rightarrow> regexp \<Rightarrow> jsstring \<Rightarrow> jsstring" where
  "str_replace s re repl =
     (if global re then replace_all (ignoreCase re) (multiline re) (source re) None s repl
      else (case exec re s of None \<Rightarrow> s | Some m \<Rightarrow> m_before m @ repl @ m_after m))"

text \<open>\<open>s.match(re)\<close> with the \<open>g\<close> flag: the texts of all matches, \<open>null\<close> when there is none.\<close>

function match_all :: "bool \<Rightarrow> bool \<Rightarrow> regex \<Rightarrow> nat option \<Rightarrow> jsstring \<Rightarrow> jsstring list" where
  "match_all ic ml r p s =
     (case search ic ml r [] p s of
        None \<Rightarrow> []
      | Some m \<Rightarrow>
          (if m_text m = [] then
             (case m_after m of
                [] \<Rightarrow> [[]]
              | c # t \<Rightarrow> [] # match_all ic ml r (Some c) t)
           else m_text m # match_all ic ml r (Some (last (m_text m))) (m_after m)))"
  by pat_completeness auto
termination
proof (relation "measure (\<lambda>(ic, ml, r, p, s). length s)", goal_cases)
  case 1
  show ?case by simp
next
  case (2 ic ml r p s m c t)
  from search_decomp[OF 2(1)] 2(2,3) have "m_before m @ c # t = s" by simp
  then have "length t < length s" by auto
  then show ?case by simp
next
  case (3 ic ml r p s m)
  from search_decomp[OF 3(1)] have "length (m_before m) + length (m_text m) + length (m_after m) = length s"
    by (metis append.assoc append_Nil length_append)
  with 3(2) show ?case by (cases "m_text m") auto
qed

declare match_all.simps [simp del]

definition match_global :: "jsstring \<Rightarrow> regexp \<Rightarrow> jsstring list option" where
  "match_global s re =
     (case match_all (ignoreCase re) (multiline re) (source re) None s of
        [] \<Rightarrow> None
      | ms \<Rightarrow> Some ms)"

text \<open>
  \<open>s.split(re)\<close> for a pattern without capture groups: \<open>cur\<close> is the piece being
  collected, and a match is tried at every position of the input.
\<close>

function split_loop :: "bool \<Rightarrow> bool \<Rightarrow> regex \<Rightarrow> nat option \<Rightarrow> jsstring \<Rightarrow> jsstring \<Rightarrow> jsstring list" where
  "split_loop ic ml r p cur [] = [cur]"
| "split_loop ic ml r p cur (c # s) =
     (case run ic ml r (MState p (c # s) []) of
        [] \<Rightarrow> split_loop ic ml r (Some c) (cur @ [c]) s
      | y # _ \<Rightarrow>
          (if length (rest y) = Suc (length s) then
             (if cur = [] then split_loop ic ml r (Some c) (cur @ [c]) s
              else cur # split_loop ic ml r p [] (c # s))
           else cur # split_loop ic ml r (prevc y) [] (rest y)))"
  by pat_completeness auto
termination
proof (relation "measure (\<lambda>(ic, ml, r, p, cur, s). 2 * length s + (if cur = [] then 0 else 1))", goal_cases)
  case (5 ic ml r p cur c s y ys)
  then have "y \<in> set (run ic ml r (MState p (c # s) []))" by simp
  from run_length[OF this] 5(2) show ?case by simp
qed auto

declare split_loop.simps [simp del]

definition str_split :: "jsstring \<Rightarrow> regexp \<Rightarrow> jsstring list" where
  "str_split s re =
     (if s = [] then
        (if run (ignoreCase re) (multiline re) (source re) (MState None [] []) = [] then [[]] else [])
      else split_loop (ignoreCase re) (multiline re) (source re) None [] s)"

section \<open>Dates\<close>

text \<open>
  The source builds \<open>Date\<close> objects from the email's date string, shifts them with
  \<open>setDate(getDate() + n)\<close> and prints them with \<open>toISOString\<close>. A time value is a number
  of milliseconds since 1970-01-01T00:00:00Z, or \<open>NaN\<close> (here \<open>None\<close>) for an invalid
  date. The functions below follow the language definition of the same names; the
  calendar functions take a day number (\<open>Day t\<close>) where the language takes a time value.
\<close>

datatype error = RangeError | TypeError

definition msPerDay :: int where
  "msPerDay = 86400000"

definition Day :: "int \<Rightarrow> int" where
  "Day t = t div msPerDay"

definition TimeWithinDay :: "int \<Rightarrow> int" where
  "TimeWithinDay t = t mod msPerDay"

definition DaysInYear :: "int \<Rightarrow> int" where
  "DaysInYear y =
     (if y mod 4 \<noteq> 0 then 365 else if y mod 100 \<noteq> 0 then 366
      else if y mod 400 \<noteq> 0 then 365 else 366)"

definition DayFromYear :: "int \<Rightarrow> int" where
  "DayFromYear y = 365 * (y - 1970) + (y - 1969) div 4 - (y - 1901) div 100 + (y - 1601) div 400"

text \<open>
  The year of a day is the largest \<open>y\<close> with \<open>DayFromYear y \<le> d\<close>; it is computed from
  an estimate that is off by at most one (\<open>YearFromDay_correct\<close> below).
\<close>

definition YearFromDay :: "int \<Rightarrow> int" where
  "YearFromDay d =
     (let y = 1970 + (400 * d) div 146097
      in if d < DayFromYear y then y - 1 else if DayFromYear (y + 1) \<le> d then y + 1 else y)"

text \<open>The day within the year on which month \<open>m\<close> (0 to 11) starts.\<close>

definition monthStart :: "bool \<Rightarrow> int \<Rightarrow> int" where
  "monthStart leap m =
     (if m \<le> 0 then 0 else if m = 1 then 31
      else (if leap then 1 else 0) +
        (if m = 2 then 59 else if m = 3 then 90 else if m = 4 then 120 else if m = 5 then 151
         else if m = 6 then 181 else if m = 7 then 212 else if m = 8 then 243
         else if m = 9 then 273 else if m = 10 then 304 else 334))"

definition MonthFromDay :: "int \<Rightarrow> int" where
  "MonthFromDay d =
     (let y = YearFromDay d; leap = (DaysInYear y = 366); w = d - DayFromYear y
      in if w < monthStart leap 1 then 0 else if w < monthStart leap 2 then 1
         else if w < monthStart leap 3 then 2 else if w < monthStart leap 4 then 3
         else if w < monthStart leap 5 then 4 else if w < monthStart leap 6 then 5
         else if w < monthStart leap 7 then 6 else if w < monthStart leap 8 then 7
         else if w < monthStart leap 9 then 8 else if w < monthStart leap 10 then 9
         else if w < monthStart leap 11 then 10 else 11)"

definition DateFromDay :: "int \<Rightarrow> int" where
  "DateFromDay d =
     (let y = YearFromDay d
      in d - DayFromYear y - monthStart (DaysInYear y = 366) (MonthFromDay d) + 1)"

definition YearFromTime :: "int \<Rightarrow> int" where
  "YearFromTime t = YearFromDay (Day t)"

definition MonthFromTime :: "int \<Rightarrow> int" where
  "MonthFromTime t = MonthFromDay (Day t)"

definition DateFromTime :: "int \<Rightarrow> int" where
  "DateFromTime t = DateFromDay (Day t)"

definition MakeTime :: "int \<Rightarrow> int \<Rightarrow> int \<Rightarrow> int \<Rightarrow> int" where
  "MakeTime h m s ms = h * 3600000 + m * 60000 + s * 1000 + ms"

definition MakeDay :: "int \<Rightarrow> int \<Rightarrow> int \<Rightarrow> int" where
  "MakeDay year month dt =
     (let ym = year + month div 12; mn = month mod 12
      in DayFromYear ym + monthStart (DaysInYear ym = 366) mn + dt - 1)"

definition MakeDate :: "int \<Rightarrow> int \<Rightarrow> int" where
  "MakeDate day time = day * msPerDay + time"

definition TimeClip :: "int \<Rightarrow> int option" where
  "TimeClip t = (if 8640000000000000 < \<bar>t\<bar> then None else Some t)"

text \<open>
  Local time: the host's time zone is taken as a fixed offset \<open>tza\<close> from UTC, in
  milliseconds. Daylight saving changes are outside the model.
\<close>

definition LocalTime :: "int \<Rightarrow> int \<Rightarrow> int" where
  "LocalTime tza t = t + tza"

definition UTC :: "int \<Rightarrow> int \<Rightarrow> int" where
  "UTC tza t = t - tza"

subsection \<open>The date-time string format\<close>

text \<open>
  \<open>new Date(s)\<close> is modelled on the language's date-time string format,
  \<open>YYYY-MM-DDTHH:mm:ss.sssZ\<close> with its shorter forms, expanded years and time zone
  offsets, which is also the format \<open>toISOString\<close> prints. The formats an engine may
  accept beyond it are not modelled: any other string gives \<open>NaN\<close>.
\<close>

definition digits_value :: "jsstring \<Rightarrow> int" where
  "digits_value ds = foldl (\<lambda>a c. 10 * a + int (c - 48)) 0 ds"

definition take_digits :: "nat \<Rightarrow> jsstring \<Rightarrow> (int \<times> jsstring) option" where
  "take_digits k s =
     (if k \<le> length s \<and> list_all isDigit (take k s)
      then Some (digits_value (take k s), drop k s) else None)"

definition parse_year :: "jsstring \<Rightarrow> (int \<times> jsstring) option" where
  "parse_year s =
     (case s of
        [] \<Rightarrow> None
      | c # t \<Rightarrow>
          if c = 43 \<or> c = 45 then
            (case take_digits 6 t of
               None \<Rightarrow> None
             | Some (v, r) \<Rightarrow>
                 if c = 45 \<and> v = 0 then None else Some (if c = 45 then - v else v, r))
          else take_digits 4 s)"

text \<open>A field of two digits after the separator \<open>sep\<close>, if the separator is there.\<close>

definition opt_field :: "nat \<Rightarrow> jsstring \<Rightarrow> (int option \<times> jsstring) option" where
  "opt_field sep s =
     (case s of
        [] \<Rightarrow> Some (None, s)
      | c # t \<Rightarrow>
          if c = sep then (case take_digits 2 t of None \<Rightarrow> None | Some (v, r) \<Rightarrow> Some (Some v, r))
          else Some (None, s))"

text \<open>The time zone: \<open>Z\<close>, \<open>+HH:mm\<close> or \<open>-HH:mm\<close> as an offset in milliseconds, or none.\<close>

definition parse_zone :: "jsstring \<Rightarrow> (int option \<times> jsstring) option" where
  "parse_zone s =
     (case s of
        [] \<Rightarrow> Some (None, s)
      | c # t \<Rightarrow>
          if c = 90 then Some (Some 0, t)
          else if c = 43 \<or> c = 45 then
            (case take_digits 2 t of
               None \<Rightarrow> None
             | Some (h, r) \<Rightarrow>
                 (case opt_field 58 r of
                    Some (Some m, r') \<Rightarrow>
                      if h \<le> 23 \<and> m \<le> 59
                      then Some (Some ((if c = 45 then - 1 else 1) * (h * 3600000 + m * 60000)), r')
                      else None
                  | _ \<Rightarrow> None))
          else Some (None, s))"

text \<open>The time of day after the \<open>T\<close>: \<open>HH:mm\<close>, \<open>HH:mm:ss\<close> or \<open>HH:mm:ss.sss\<close>.\<close>

definition parse_time :: "jsstring \<Rightarrow> (int \<times> jsstring) option" where
  "parse_time s =
     (case take_digits 2 s of
        None \<Rightarrow> None
      | Some (h, r1) \<Rightarrow>
          (case opt_field 58 r1 of
             Some (Some m, r2) \<Rightarrow>
               (case opt_field 58 r2 of
                  None \<Rightarrow> None
                | Some (None, r3) \<Rightarrow>
                    if h \<le> 24 \<and> m \<le> 59 \<and> (if h = 24 then m = 0 else True)
                    then Some (MakeTime h m 0 0, r3) else None
                | Some (Some sec, r3) \<Rightarrow>
                    (case (case r3 of
                             [] \<Rightarrow> Some (0, r3)
                           | c # t \<Rightarrow> if c = 46 then take_digits 3 t else Some (0, r3)) of
                       None \<Rightarrow> None
                     | Some (ms, r4) \<Rightarrow>
                         if h \<le> 24 \<and> m \<le> 59 \<and> sec \<le> 59
                            \<and> (if h = 24 then m = 0 \<and> sec = 0 \<and> ms = 0 else True)
                         then Some (MakeTime h m sec ms, r4) else None))
           | _ \<Rightarrow> None))"

text \<open>
  \<open>Date.parse\<close>: a date alone is UTC; a date with a time and no offset is local time.
\<close>

definition Date_parse :: "int \<Rightarrow> jsstring \<Rightarrow> int option" where
  "Date_parse tza s =
     (case parse_year s of
        None \<Rightarrow> None
      | Some (y, r1) \<Rightarrow>
          (case opt_field 45 r1 of
             None \<Rightarrow> None
           | Some (mo, r2) \<Rightarrow>
               (case (if mo = None then Some (None, r2) else opt_field 45 r2) of
                  None \<Rightarrow> None
                | Some (dd, r3) \<Rightarrow>
                    (let m = (case mo of None \<Rightarrow> 1 | Some v \<Rightarrow> v);
                         d = (case dd of None \<Rightarrow> 1 | Some v \<Rightarrow> v)
                     in if \<not> (1 \<le> m \<and> m \<le> 12 \<and> 1 \<le> d \<and> d \<le> 31) then None
                        else
                          (case r3 of
                             [] \<Rightarrow> TimeClip (MakeDate (MakeDay y (m - 1) d) 0)
                           | c # t \<Rightarrow>
                               if c \<noteq> 84 then None
                               else
                                 (case parse_time t of
                                    None \<Rightarrow> None
                                  | Some (tm, r4) \<Rightarrow>
                                      (case parse_zone r4 of
                                         Some (z, []) \<Rightarrow>
                                           (let tv = MakeDate (MakeDay y (m - 1) d) tm
                                            in TimeClip (case z of None \<Rightarrow> UTC tza tv
                                                         | Some off \<Rightarrow> tv - off))
                                       | _ \<Rightarrow> None)))))))"

subsection \<open>Date objects\<close>

text \<open>
  A \<open>Date\<close> object is its time value. \<open>setDate\<close> mutates the object; the model returns
  the new time value.
\<close>

type_synonym Date = "int option"

definition Date_new :: "int \<Rightarrow> jsstring \<Rightarrow> Date" where
  "Date_new tza s = Date_parse tza s"

definition getDate :: "int \<Rightarrow> Date \<Rightarrow> int option" where
  "getDate tza d = (case d of None \<Rightarrow> None | Some t \<Rightarrow> Some (DateFromTime (LocalTime tza t)))"

definition setDate :: "int \<Rightarrow> Date \<Rightarrow> int option \<Rightarrow> Date" where
  "setDate tza d dt =
     (case d of
        None \<Rightarrow> None
      | Some t \<Rightarrow>
          (case dt of
             None \<Rightarrow> None
           | Some n \<Rightarrow>
               (let lt = LocalTime tza t;
                    newDate = MakeDate (MakeDay (YearFromTime lt) (MonthFromTime lt) n) (TimeWithinDay lt)
                in TimeClip (UTC tza newDate))))"

definition digit :: "int \<Rightarrow> nat" where
  "digit v = 48 + nat (v mod 10)"

definition pad2 :: "int \<Rightarrow> jsstring" where
  "pad2 v = [digit (v div 10), digit v]"

definition pad3 :: "int \<Rightarrow> jsstring" where
  "pad3 v = [digit (v div 100), digit (v div 10), digit v]"

definition year_string :: "int \<Rightarrow> jsstring" where
  "year_string y =
     (if 0 \<le> y \<and> y \<le> 9999 then pad2 (y div 100) @ pad2 y
      else (if y < 0 then 45 else 43) # pad2 (\<bar>y\<bar> div 10000) @ pad2 (\<bar>y\<bar> div 100) @ pad2 \<bar>y\<bar>)"

text \<open>The calendar date of a day number, as \<open>toISOString\<close> prints it before the \<open>T\<close>.\<close>

definition date_string :: "int \<Rightarrow> jsstring" where
  "date_string d =
     year_string (YearFromDay d) @ 45 # pad2 (MonthFromDay d + 1) @ 45 # pad2 (DateFromDay d)"

definition time_string :: "int \<Rightarrow> jsstring" where
  "time_string t =
     pad2 (TimeWithinDay t div 3600000) @ 58 # pad2 (TimeWithinDay t div 60000 mod 60)
       @ 58 # pad2 (TimeWithinDay t div 1000 mod 60) @ 46 # pad3 (TimeWithinDay t mod 1000) @ [90]"

definition toISOString :: "Date \<Rightarrow> error + jsstring" where
  "toISOString d =
     (case d of
        None \<Rightarrow> Inl RangeError
      | Some t \<Rightarrow> Inr (date_string (Day t) @ 84 # time_string t))"

text \<open>The unfolding rules with which a date is evaluated on a concrete input.\<close>

lemmas date_eval = Date_new_def Date_parse_def parse_year_def take_digits_def digits_value_def
  opt_field_def parse_zone_def parse_time_def isDigit_def MakeTime_def MakeDay_def MakeDate_def
  TimeClip_def UTC_def LocalTime_def DayFromYear_def DaysInYear_def monthStart_def
  toISOString_def date_string_def time_string_def year_string_def pad2_def pad3_def digit_def
  YearFromDay_def MonthFromDay_def DateFromDay_def Day_def TimeWithinDay_def msPerDay_def
  YearFromTime_def MonthFromTime_def DateFromTime_def getDate_def setDate_def str_def Let_def

section \<open>The parser service\<close>

subsection \<open>Data\<close>

text \<open>
  \<open>ParsedEmail\<close>, \<open>EmailCategory\<close>, \<open>JobStatus\<close> and \<open>JobApplication\<close> of
  \<open>src/types/index.ts\<close>. The field \<open>from\<close> of an email is \<open>fromHeader\<close> here and the
  field \<open>id\<close> is \<open>messageId\<close>; the field \<open>notes\<close> of an application is \<open>notesText\<close>.
\<close>

record ParsedEmail =
  messageId :: jsstring
  threadId :: jsstring
  fromHeader :: jsstring
  subject :: jsstring
  date :: jsstring
  body :: jsstring
  htmlBody :: "jsstring option"

datatype EmailCategory =
  application_confirmation | rejection | interview_invitation | offer | follow_up | unknown

datatype JobStatus = Applied | Phone_Screen | Interview | Technical | Offer | Rejected | Ghosted

text \<open>
  A value the service can produce where the types promise a string: a string, or a
  built-in function or object of the runtime, named by the property of
  \<open>Object.prototype\<close> it was read from.
\<close>

datatype jsvalue = JString jsstring | JBuiltin jsstring

record JobApplication =
  company :: jsvalue
  position :: jsstring
  dateApplied :: jsstring
  status :: JobStatus
  salaryRange :: "jsstring option"
  location :: "jsstring option"
  jobLink :: "jsstring option"
  emailThreadLink :: jsstring
  followUpDate :: "jsstring option"
  notesText :: jsstring
  sourceEmail :: jsstring

subsection \<open>Writing the patterns\<close>

definition lit :: "string \<Rightarrow> regex" where
  "lit s = Lit (str s)"

definition alts :: "string list \<Rightarrow> regex" where
  "alts ws = Alt (map lit ws)"

definition chars :: "string \<Rightarrow> citem list" where
  "chars s = map (\<lambda>c. CChar (of_char c)) s"

definition rng :: "char \<Rightarrow> char \<Rightarrow> citem" where
  "rng a b = CRange (of_char a) (of_char b)"

definition star :: "regex \<Rightarrow> regex" where
  "star r = Rep 0 None True r"

definition plus :: "regex \<Rightarrow> regex" where
  "plus r = Rep 1 None True r"

definition plus_lazy :: "regex \<Rightarrow> regex" where
  "plus_lazy r = Rep 1 None False r"

definition opt :: "regex \<Rightarrow> regex" where
  "opt r = Rep 0 (Some 1) True r"

text \<open>\<open>\s*\<close> and \<open>\s+\<close>.\<close>

definition ws0 :: regex where
  "ws0 = star (Cls False [CSpace])"

definition ws1 :: regex where
  "ws1 = plus (Cls False [CSpace])"

text \<open>The en dash, which the source writes in some character classes.\<close>

definition en_dash :: nat where
  "en_dash = 8211"

subsection \<open>Classification\<close>

definition CATEGORY_PATTERNS :: "(EmailCategory \<times> regexp list) list" where
  "CATEGORY_PATTERNS =
     [(offer,
       [RegExp (lit ''offer letter'') ''i'',
        RegExp (lit ''job offer'') ''i'',
        RegExp (lit ''we are pleased to offer'') ''i'',
        RegExp (lit ''extend an offer'') ''i'',
        RegExp (lit ''offer of employment'') ''i'',
        RegExp (Seq [lit ''congratulations'', star Dot, lit ''offer'']) ''i'']),
      (interview_invitation,
       [RegExp (Seq [lit ''schedule'', star Dot, lit ''interview'']) ''i'',
        RegExp (Seq [lit ''interview'', star Dot, lit ''schedule'']) ''i'',
        RegExp (lit ''phone screen'') ''i'',
        RegExp (lit ''invite you to interview'') ''i'',
        RegExp (lit ''like to schedule'') ''i'',
        RegExp (Seq [lit ''next steps'', star Dot, lit ''interview'']) ''i'',
        RegExp (lit ''technical assessment'') ''i'',
        RegExp (lit ''coding challenge'') ''i'',
        RegExp (lit ''take-home'') ''i'',
        RegExp (lit ''onsite interview'') ''i'',
        RegExp (lit ''virtual interview'') ''i'',
        RegExp (lit ''meet the team'') ''i'']),
      (rejection,
       [RegExp (lit ''unfortunately'') ''i'',
        RegExp (lit ''not moving forward'') ''i'',
        RegExp (lit ''other candidates'') ''i'',
        RegExp (lit ''position has been filled'') ''i'',
        RegExp (lit ''decided not to proceed'') ''i'',
        RegExp (lit ''will not be moving'') ''i'',
        RegExp (lit ''not be able to offer'') ''i'',
        RegExp (lit ''pursue other candidates'') ''i'',
        RegExp (lit ''after careful consideration'') ''i'',
        RegExp (lit ''regret to inform'') ''i'',
        RegExp (Seq [lit ''won'', Lit [39], lit ''t be moving forward'']) ''i'']),
      (application_confirmation,
       [RegExp (Seq [lit ''application'', star Dot, lit ''received'']) ''i'',
        RegExp (lit ''thank you for applying'') ''i'',
        RegExp (Seq [lit ''application'', star Dot, lit ''submitted'']) ''i'',
        RegExp (lit ''we received your application'') ''i'',
        RegExp (lit ''application confirmation'') ''i'',
        RegExp (lit ''successfully applied'') ''i'',
        RegExp (Seq [lit ''application'', star Dot, lit ''review'']) ''i'']),
      (follow_up,
       [RegExp (lit ''following up'') ''i'',
        RegExp (lit ''checking in'') ''i'',
        RegExp (lit ''update on your application'') ''i'',
        RegExp (Seq [lit ''status'', star Dot, lit ''application'']) ''i'',
        RegExp (lit ''wanted to reach out'') ''i''])]"

fun STATUS_MAP :: "EmailCategory \<Rightarrow> JobStatus" where
  "STATUS_MAP application_confirmation = Applied"
| "STATUS_MAP rejection = Rejected"
| "STATUS_MAP interview_invitation = Interview"
| "STATUS_MAP offer = Offer"
| "STATUS_MAP follow_up = Applied"
| "STATUS_MAP unknown = Applied"

text \<open>The loop of \<open>classifyEmail\<close> over the table, and \<open>classifyEmail\<close> itself.\<close>

fun classify_loop :: "(EmailCategory \<times> regexp list) list \<Rightarrow> jsstring \<Rightarrow> EmailCategory" where
  "classify_loop [] text = unknown"
| "classify_loop ((category, patterns) # groups) text =
     (if list_ex (\<lambda>p. test p text) patterns then category else classify_loop groups text)"

definition classifyEmail :: "ParsedEmail \<Rightarrow> EmailCategory" where
  "classifyEmail email = classify_loop CATEGORY_PATTERNS (subject email @ str '' '' @ body email)"

definition shouldProcess :: "ParsedEmail \<Rightarrow> bool" where
  "shouldProcess email = (classifyEmail email \<noteq> unknown)"


subsection \<open>Company\<close>

definition GENERIC_SENDER_NAMES :: regexp where
  "GENERIC_SENDER_NAMES =
     RegExp (Seq [Bol, Cap 1 (Alt
       [Seq [lit ''no'', opt (Cls False (chars ''- '')), lit ''reply''],
        Seq [lit ''do'', opt (Cls False (chars ''- '')), lit ''not'',
             opt (Cls False (chars ''- '')), lit ''reply''],
        lit ''recruiting'', lit ''careers'', lit ''talent'', lit ''hr'', lit ''jobs'',
        Seq [lit ''notification'', opt (lit ''s'')],
        lit ''info'', lit ''support'', lit ''admin'', lit ''hello'', lit ''team'', lit ''mailer'',
        Seq [lit ''update'', opt (lit ''s'')],
        Seq [lit ''alert'', opt (lit ''s'')]])]) ''i''"

definition SENDER_SUFFIXES :: regexp where
  "SENDER_SUFFIXES =
     RegExp (Seq [ws1, Cap 1 (Alt
       [lit ''recruiting'', lit ''careers'', lit ''talent acquisition'', lit ''talent'',
        lit ''team'', lit ''hr'', lit ''jobs'', lit ''hiring'', lit ''staffing'',
        Seq [lit ''notification'', opt (lit ''s'')]]), ws0, Eol]) ''i''"

definition ATS_DOMAINS :: "jsstring list" where
  "ATS_DOMAINS = map str
     [''greenhouse.io'', ''lever.co'', ''workday.com'', ''myworkdayjobs.com'', ''icims.com'',
      ''smartrecruiters.com'', ''ashbyhq.com'', ''jobvite.com'', ''bamboohr.com'',
      ''applytojob.com'', ''recruitee.com'', ''breezy.hr'', ''jazz.co'', ''rippling.com'']"

text \<open>The legal suffixes and the white space that \<open>cleanCompanyName\<close> removes.\<close>

definition LEGAL_SUFFIXES :: regexp where
  "LEGAL_SUFFIXES =
     RegExp (Seq [ws0, Cap 1 (Alt
       [Seq [lit ''Inc'', opt (lit ''.'')], lit ''LLC'', Seq [lit ''Ltd'', opt (lit ''.'')],
        Seq [lit ''Corp'', opt (lit ''.'')], Seq [lit ''Co'', opt (lit ''.'')]]), ws0, Eol]) ''i''"

definition WHITESPACE_RUNS :: regexp where
  "WHITESPACE_RUNS = RegExp ws1 ''g''"

definition bad_names :: "jsstring list" where
  "bad_names = map str
     [''the'', ''a'', ''an'', ''your'', ''our'', ''this'', ''that'', ''us'', ''we'', ''thank'',
      ''thanks'', ''hi'', ''hello'', ''dear'', ''application'', ''confirmation'', ''update'',
      ''status'', ''re'', ''fwd'']"

definition cleanCompanyName :: "jsstring \<Rightarrow> jsstring option" where
  "cleanCompanyName name =
     (let cleaned = trim (str_replace (str_replace (str_replace name SENDER_SUFFIXES [])
                       LEGAL_SUFFIXES []) WHITESPACE_RUNS (str '' ''))
      in if toLowerCase cleaned \<in> set bad_names then None
         else if cleaned = [] then None else Some cleaned)"

text \<open>The capture \<open>([A-Z][A-Za-z0-9\s&.,'-]+?)\<close> of the company patterns.\<close>

definition company_name :: regex where
  "company_name =
     Cap 1 (Seq [Cls False [rng CHR ''A'' CHR ''Z''],
                 plus_lazy (Cls False ([rng CHR ''A'' CHR ''Z'', rng CHR ''a'' CHR ''z'',
                                         rng CHR ''0'' CHR ''9'', CSpace]
                                        @ chars ''&.,'' @ [CChar 39, CChar 45]))])"

text \<open>\<open>\s*[.!,]\<close>, which ends several of the patterns.\<close>

definition stop_mark :: regex where
  "stop_mark = Seq [ws0, Cls False (chars ''.!,'')]"

definition body_company_patterns :: "regexp list" where
  "body_company_patterns =
     [RegExp (Seq [opt (Seq [lit ''your'', ws1]), lit ''application'', ws1,
                   alts [''to'', ''at'', ''with'', ''for''], ws1, opt (Seq [lit ''the'', ws1]),
                   company_name,
                   Seq [ws1, alts [''has been'', ''was'', ''is'', ''for the'', ''for a''], WordB]]) ''i'',
      RegExp (Seq [alts [''applying'', ''applied''], ws1, alts [''to'', ''at'', ''with'', ''for''], ws1,
                   opt (Seq [lit ''the'', ws1]), company_name,
                   Alt [stop_mark, Seq [ws1, alts [''for'', ''and'', ''as''], WordB]]]) ''i'',
      RegExp (Seq [lit ''interest'', ws1, lit ''in'', ws1,
                   opt (Seq [lit ''working'', ws1, alts [''at'', ''with''], ws1]), company_name,
                   Alt [stop_mark, Seq [ws1, alts [''and'', ''we''], WordB]]]) ''i'',
      RegExp (Seq [lit ''on'', ws1, lit ''behalf'', ws1, lit ''of'', ws1, company_name, stop_mark]) ''i'',
      RegExp (Seq [alts [''position'', ''role'', ''opportunity''], ws1, alts [''at'', ''with''], ws1,
                   company_name,
                   Alt [stop_mark, Seq [ws1, alts [''and'', ''has'', ''is'', ''we''], WordB]]]) ''i'',
      RegExp (Seq [Bol, company_name, ws1,
                   Alt [Seq [lit ''has'', ws1, lit ''received''], lit ''received'', lit ''confirms'',
                        lit ''would like'']]) ''im'',
      RegExp (Seq [lit ''team'', ws1, lit ''at'', ws1, company_name, stop_mark]) ''i'']"

text \<open>
  The loop of \<open>extractCompanyFromBody\<close> and of \<open>extractCompanyFromSubject\<close>. Reading
  \<open>match[1]\<close> where the group took no part in the match gives \<open>undefined\<close>, on which
  \<open>cleanCompanyName\<close> raises a TypeError.
\<close>

fun company_loop :: "regexp list \<Rightarrow> jsstring \<Rightarrow> error + jsstring option" where
  "company_loop [] text = Inr None"
| "company_loop (pattern # patterns) text =
     (case exec pattern text of
        None \<Rightarrow> company_loop patterns text
      | Some m \<Rightarrow>
          (case capture m 1 of
             None \<Rightarrow> Inl TypeError
           | Some g \<Rightarrow>
               (case cleanCompanyName g of
                  None \<Rightarrow> company_loop patterns text
                | Some name \<Rightarrow>
                    if name \<noteq> [] \<and> 2 \<le> length name \<and> length name < 80 then Inr (Some name)
                    else company_loop patterns text)))"

definition extractCompanyFromBody :: "jsstring \<Rightarrow> error + jsstring option" where
  "extractCompanyFromBody text = company_loop body_company_patterns text"

definition sender_name_pattern :: regexp where
  "sender_name_pattern =
     RegExp (Seq [Bol, opt (Lit [34]), Cap 1 (plus (Cls True [CChar 34, CChar 60])),
                  opt (Lit [34]), ws0, Lit [60]]) []"

definition extractCompanyFromSender :: "jsstring \<Rightarrow> error + jsstring option" where
  "extractCompanyFromSender frm =
     (case exec sender_name_pattern frm of
        None \<Rightarrow> Inr None
      | Some nameMatch \<Rightarrow>
          (case capture nameMatch 1 of
             None \<Rightarrow> Inl TypeError
           | Some g \<Rightarrow>
               (let name = trim g
                in if test GENERIC_SENDER_NAMES name then Inr None
                   else
                     (case cleanCompanyName name of
                        None \<Rightarrow> Inr None
                      | Some cleaned \<Rightarrow>
                          if cleaned \<noteq> [] \<and> 2 \<le> length cleaned \<and> length cleaned < 80
                          then Inr (Some cleaned) else Inr None))))"

text \<open>\<open>(?:\s*[-|!]|\s*$)\<close>, with the en dash in the class, which ends three of the subject patterns.\<close>

definition subject_stop :: regex where
  "subject_stop =
     Alt [Seq [ws0, Cls False ([CChar 45, CChar en_dash] @ chars ''|!'')], Seq [ws0, Eol]]"

definition subject_company_patterns :: "regexp list" where
  "subject_company_patterns =
     [RegExp (Seq [WordB, lit ''at'', ws1, company_name, subject_stop]) [],
      RegExp (Seq [WordB, lit ''from'', ws1, company_name, subject_stop]) [],
      RegExp (Seq [WordB, lit ''with'', ws1, company_name, subject_stop]) [],
      RegExp (Seq [Bol, company_name, ws0, Cls False ([CChar 45, CChar en_dash] @ chars ''|:''),
                   Cls False [CSpace]]) []]"

definition extractCompanyFromSubject :: "jsstring \<Rightarrow> error + jsstring option" where
  "extractCompanyFromSubject text = company_loop subject_company_patterns text"

text \<open>
  \<open>titleCase\<close> looks the domain up in the object literal \<open>knownSplits\<close>. A property
  lookup on an object literal also finds the properties the object inherits from
  \<open>Object.prototype\<close>, whose values are functions and objects, not strings.
\<close>

definition Object_prototype_properties :: "jsstring list" where
  "Object_prototype_properties = map str
     [''constructor'', ''__defineGetter__'', ''__defineSetter__'', ''hasOwnProperty'',
      ''__lookupGetter__'', ''__lookupSetter__'', ''isPrototypeOf'', ''propertyIsEnumerable'',
      ''toString'', ''valueOf'', ''__proto__'', ''toLocaleString'']"

definition knownSplits :: "jsstring \<Rightarrow> jsvalue option" where
  "knownSplits key =
     (if key = str ''randstadservices'' then Some (JString (str ''Randstad''))
      else if key = str ''smartrecruiters'' then Some (JString (str ''SmartRecruiters''))
      else if key = str ''bamboohr'' then Some (JString (str ''BambooHR''))
      else if key \<in> set Object_prototype_properties then Some (JBuiltin key)
      else None)"

text \<open>What \<open>if (v)\<close> and \<open>v || w\<close> test: the empty string is false, an object is true.\<close>

fun truthy :: "jsvalue \<Rightarrow> bool" where
  "truthy (JString s) = (s \<noteq> [])"
| "truthy (JBuiltin k) = True"

definition titleCase :: "jsstring \<Rightarrow> jsvalue" where
  "titleCase domain =
     (case knownSplits domain of
        Some v \<Rightarrow> if truthy v then v else JString (toUpperCase (take 1 domain) @ drop 1 domain)
      | None \<Rightarrow> JString (toUpperCase (take 1 domain) @ drop 1 domain))"

definition domain_pattern :: regexp where
  "domain_pattern =
     RegExp (Seq [lit ''@'', Cap 1 (plus (Cls True (chars ''.>''))), lit ''.'']) []"

definition skip_domains :: "jsstring list" where
  "skip_domains =
     map str [''gmail'', ''yahoo'', ''hotmail'', ''outlook'', ''mail'', ''proton'', ''icloud'']
       @ map (first_piece 46) ATS_DOMAINS"

definition extractCompanyFromDomain :: "jsstring \<Rightarrow> error + jsvalue option" where
  "extractCompanyFromDomain frm =
     (case exec domain_pattern frm of
        None \<Rightarrow> Inr None
      | Some domainMatch \<Rightarrow>
          (case capture domainMatch 1 of
             None \<Rightarrow> Inl TypeError
           | Some g \<Rightarrow>
               (let domain = toLowerCase g
                in if domain \<in> set skip_domains then Inr None
                   else Inr (Some (titleCase domain)))))"

text \<open>\<open>a || b\<close> where \<open>a\<close> may be \<open>null\<close>.\<close>

definition or_else :: "jsvalue option \<Rightarrow> jsvalue \<Rightarrow> jsvalue" where
  "or_else a b = (case a of None \<Rightarrow> b | Some v \<Rightarrow> if truthy v then v else b)"

definition isAts :: "ParsedEmail \<Rightarrow> bool" where
  "isAts email = list_ex (\<lambda>d. str_includes (toLowerCase (fromHeader email)) d) ATS_DOMAINS"

definition Unknown_Company :: jsstring where
  "Unknown_Company = str ''Unknown Company''"

definition extractCompany :: "ParsedEmail \<Rightarrow> jsstring \<Rightarrow> error + jsvalue" where
  "extractCompany email text =
     (case extractCompanyFromBody text of
        Inl e \<Rightarrow> Inl e
      | Inr bodyCompany \<Rightarrow>
     (case extractCompanyFromSender (fromHeader email) of
        Inl e \<Rightarrow> Inl e
      | Inr fromCompany \<Rightarrow>
     (case extractCompanyFromSubject (subject email) of
        Inl e \<Rightarrow> Inl e
      | Inr subjectCompany \<Rightarrow>
     (case extractCompanyFromDomain (fromHeader email) of
        Inl e \<Rightarrow> Inl e
      | Inr domainCompany \<Rightarrow>
          if isAts email then
            Inr (or_else (map_option JString bodyCompany)
                  (or_else (map_option JString subjectCompany)
                    (or_else (map_option JString fromCompany)
                      (or_else domainCompany (JString Unknown_Company)))))
          else
            Inr (or_else (map_option JString fromCompany)
                  (or_else (map_option JString bodyCompany)
                    (or_else (map_option JString subjectCompany)
                      (or_else domainCompany (JString Unknown_Company)))))))))"

subsection \<open>Position\<close>

definition JOB_TITLE_KEYWORDS :: regexp where
  "JOB_TITLE_KEYWORDS =
     RegExp (Seq [WordB, Cap 1 (Alt
       [lit ''developer'', lit ''engineer'', lit ''designer'', lit ''analyst'', lit ''manager'',
        lit ''director'', lit ''coordinator'', lit ''specialist'', lit ''consultant'',
        lit ''administrator'', lit ''architect'', lit ''lead'', lit ''senior'', lit ''junior'',
        lit ''intern'', lit ''associate'', lit ''assistant'',
        Seq [lit ''full'', opt (Cls False (chars ''- '')), lit ''stack''],
        Seq [lit ''front'', opt (Cls False (chars ''- '')), lit ''end''],
        Seq [lit ''back'', opt (Cls False (chars ''- '')), lit ''end''],
        lit ''devops'', lit ''qa'', lit ''sre'', lit ''data'', lit ''software'', lit ''web'',
        lit ''mobile'', lit ''cloud'', lit ''product'', lit ''project'', lit ''program'',
        lit ''marketing'', lit ''sales'', lit ''support'', lit ''operations'',
        Seq [lit ''it'', WordB], lit ''ux'', lit ''ui'']), WordB]) ''i''"

definition NOT_A_POSITION :: regexp where
  "NOT_A_POSITION =
     RegExp (Seq [Bol, Cap 1 (alts
       [''thank you'', ''thanks'', ''application'', ''confirmation'', ''update'', ''status'',
        ''their interest'', ''your interest'', ''our team'', ''the team'', ''dear'', ''hi'',
        ''hello'', ''regarding'', ''re'', ''fwd'', ''fw''])]) ''i''"

definition isValidPosition :: "jsstring \<Rightarrow> bool" where
  "isValidPosition text =
     (if text = [] \<or> length text < 3 \<or> 100 < length text then False
      else if test NOT_A_POSITION text then False
      else if test JOB_TITLE_KEYWORDS text then True
      else if 2 \<le> length (str_split text (RegExp ws1 [])) then True
      else False)"

text \<open>The class \<open>[A-Za-z0-9\s/,.-]\<close> of the position patterns.\<close>

definition title_chars :: regex where
  "title_chars =
     Cls False ([rng CHR ''A'' CHR ''Z'', rng CHR ''a'' CHR ''z'', rng CHR ''0'' CHR ''9'', CSpace]
                @ chars ''/,.-'')"

definition title :: regex where
  "title = Cap 1 (plus_lazy title_chars)"

definition the_position_of :: "regex list" where
  "the_position_of =
     [opt (Seq [lit ''the'', ws1]), opt (Seq [lit ''position'', ws1, lit ''of'', ws1])]"

definition body_position_patterns :: "regexp list" where
  "body_position_patterns =
     [RegExp (Seq [lit ''for'', ws1, lit ''the'', ws1, title, ws1,
                   alts [''position'', ''role'', ''opening'', ''opportunity'']]) ''i'',
      RegExp (Seq [Alt [lit ''position'', lit ''role'', Seq [lit ''job'', ws0, lit ''title'']], ws0,
                   Cls False [CChar 58, CChar en_dash, CChar 45], ws0, title,
                   Alt [Seq [ws0, Cls False ([CChar 46, CChar 10] @ chars '',;'')],
                        Seq [ws1, alts [''at'', ''with'', ''in'', ''is''], WordB]]]) ''i'',
      RegExp (Seq ([alts [''applied'', ''applying''], ws1, alts [''for'', ''to''], ws1]
                   @ the_position_of
                   @ [title,
                      Alt [Seq [ws1, alts [''position'', ''role'', ''at'', ''with''], WordB],
                           Seq [ws0, Cls False (chars ''.,;'')]]])) ''i'',
      RegExp (Seq ([lit ''application'', ws1, lit ''for'', ws1]
                   @ the_position_of
                   @ [title,
                      Alt [Seq [ws1, alts [''position'', ''role'', ''at'', ''with'', ''has''], WordB],
                           Seq [ws0, Cls False (chars ''.,;'')]]])) ''i'',
      RegExp (Seq [lit ''the'', ws1, title, ws1, alts [''role'', ''position'', ''opening''], ws1,
                   alts [''at'', ''with''], WordB]) ''i'',
      RegExp (Seq ([lit ''interested'', ws1, lit ''in'', ws1]
                   @ the_position_of
                   @ [title,
                      Alt [Seq [ws1, alts [''position'', ''role'', ''at'', ''with''], WordB],
                           Seq [ws0, Cls False (chars ''.,;'')]]])) ''i'']"

text \<open>
  The loop of \<open>extractPositionFromBody\<close> and of \<open>extractPositionFromSubject\<close>;
  \<open>match[1].trim()\<close> raises a TypeError where \<open>match[1]\<close> is \<open>undefined\<close>.
\<close>

fun position_loop :: "regexp list \<Rightarrow> jsstring \<Rightarrow> error + jsstring option" where
  "position_loop [] text = Inr None"
| "position_loop (pattern # patterns) text =
     (case exec pattern text of
        None \<Rightarrow> position_loop patterns text
      | Some m \<Rightarrow>
          (case capture m 1 of
             None \<Rightarrow> Inl TypeError
           | Some g \<Rightarrow>
               (let pos = trim g
                in if isValidPosition pos then Inr (Some pos)
                   else position_loop patterns text)))"

definition extractPositionFromBody :: "jsstring \<Rightarrow> error + jsstring option" where
  "extractPositionFromBody text = position_loop body_position_patterns text"

definition subject_position_patterns :: "regexp list" where
  "subject_position_patterns =
     [RegExp (Seq [lit ''application'', ws0, Cls False [CChar 45, CChar en_dash, CChar 58], ws0,
                   title,
                   Alt [Seq [ws1, alts [''at'', ''with'', ''-''], WordB], Seq [ws0, Eol]]]) ''i'',
      RegExp (Seq [Bol, opt (Seq [lit ''re:'', ws0]), title, ws1, alts [''at'', ''@''], ws1]) ''i'',
      RegExp (Seq [lit ''application'', ws1, lit ''for'', ws1, opt (Seq [lit ''the'', ws1]), title,
                   Alt [Seq [ws1, alts [''at'', ''with''], WordB], Seq [ws0, Eol]]]) ''i'',
      RegExp (Seq [alts [''role'', ''position'', ''job''], ws0,
                   Cls False [CChar 45, CChar en_dash, CChar 58], ws0,
                   Cap 1 (plus title_chars)]) ''i'']"

definition extractPositionFromSubject :: "jsstring \<Rightarrow> error + jsstring option" where
  "extractPositionFromSubject text = position_loop subject_position_patterns text"

text \<open>The three replacements that give \<open>cleanSubject\<close> in \<open>extractPosition\<close>.\<close>

definition reply_prefix :: regexp where
  "reply_prefix =
     RegExp (Seq [Bol, Cap 1 (Alt [lit ''re:'', Seq [lit ''fw'', opt (lit ''d''), lit '':''],
                                   lit ''fw:'']), ws0]) ''gi''"

definition boilerplate_prefix :: regexp where
  "boilerplate_prefix =
     RegExp (Seq [Bol, Cap 1 (alts [''application'', ''confirmation'', ''thank you'', ''update'',
                                    ''your'']), ws0,
                  Cls False ([CChar 45, CChar en_dash] @ chars '':|''), ws0]) ''gi''"

definition trailing_part :: regexp where
  "trailing_part =
     RegExp (Seq [ws0, Cls False ([CChar 45, CChar en_dash] @ chars ''|''), ws0, plus Dot, Eol]) []"

definition Unknown_Position :: jsstring where
  "Unknown_Position = str ''Unknown Position''"

definition extractPosition :: "ParsedEmail \<Rightarrow> jsstring \<Rightarrow> error + jsstring" where
  "extractPosition email text =
     (case extractPositionFromBody text of
        Inl e \<Rightarrow> Inl e
      | Inr bodyPosition \<Rightarrow>
          (case (case bodyPosition of None \<Rightarrow> None | Some p \<Rightarrow> if p \<noteq> [] then Some p else None) of
             Some p \<Rightarrow> Inr p
           | None \<Rightarrow>
               (case extractPositionFromSubject (subject email) of
                  Inl e \<Rightarrow> Inl e
                | Inr subjectPosition \<Rightarrow>
                    (case (case subjectPosition of None \<Rightarrow> None
                           | Some p \<Rightarrow> if p \<noteq> [] then Some p else None) of
                       Some p \<Rightarrow> Inr p
                     | None \<Rightarrow>
                         (let cleanSubject =
                                trim (str_replace (str_replace (str_replace (subject email)
                                        reply_prefix []) boilerplate_prefix []) trailing_part [])
                          in if cleanSubject \<noteq> [] \<and> test JOB_TITLE_KEYWORDS cleanSubject
                                \<and> \<not> test NOT_A_POSITION cleanSubject
                             then Inr cleanSubject else Inr Unknown_Position)))))"

subsection \<open>Salary, location and job link\<close>

text \<open>\<open>\$[\d,]+\<close>, an amount.\<close>

definition amount :: regex where
  "amount = Seq [lit ''$'', plus (Cls False [CDigit, CChar 44])]"

text \<open>\<open>[-to]+\<close> with the en dash in the class, between two amounts.\<close>

definition range_mark :: regex where
  "range_mark = plus (Cls False ([CChar 45, CChar en_dash] @ chars ''to''))"

definition salary_patterns :: "regexp list" where
  "salary_patterns =
     [RegExp (Seq [amount, ws0, range_mark, ws0, amount, ws0,
                   opt (Seq [lit ''per'', ws1, alts [''year'', ''annum'', ''hr'', ''hour'']])]) ''i'',
      RegExp (Seq [amount, ws0, opt (alts [''k'', ''K'']), ws0, range_mark, ws0, amount, ws0,
                   opt (alts [''k'', ''K''])]) ''i'',
      RegExp (Seq [lit ''salary'', ws0, opt (lit ''range''), opt (lit '':''), ws0, amount]) ''i'',
      RegExp (Seq [lit ''compensation'', opt (lit '':''), ws0, amount]) ''i'']"

fun salary_loop :: "regexp list \<Rightarrow> jsstring \<Rightarrow> jsstring option" where
  "salary_loop [] text = None"
| "salary_loop (pattern # patterns) text =
     (case exec pattern text of
        None \<Rightarrow> salary_loop patterns text
      | Some m \<Rightarrow> Some (trim (m_text m)))"

definition extractSalary :: "jsstring \<Rightarrow> jsstring option" where
  "extractSalary text = salary_loop salary_patterns text"

definition location_patterns :: "regexp list" where
  "location_patterns =
     [RegExp (Seq [alts [''location'', ''based in'', ''located in'', ''office in''], opt (lit '':''),
                   ws0,
                   Cap 1 (Seq [plus (Cls False [rng CHR ''A'' CHR ''Z'', rng CHR ''a'' CHR ''z'',
                                                CSpace, CChar 44]),
                               opt (Seq [lit '','', ws0,
                                         Rep 2 (Some 2) True (Cls False [rng CHR ''A'' CHR ''Z''])])]),
                   Alt [lit ''.'', lit '','', Lit [10]]]) ''i'',
      RegExp (Alt [lit ''remote'', lit ''hybrid'', Seq [lit ''on'', opt (lit ''-''), lit ''site'']]) ''i'']"

text \<open>\<open>(match[1] || match[0]).trim()\<close> for the first pattern that matches.\<close>

fun location_loop :: "regexp list \<Rightarrow> jsstring \<Rightarrow> jsstring option" where
  "location_loop [] text = None"
| "location_loop (pattern # patterns) text =
     (case exec pattern text of
        None \<Rightarrow> location_loop patterns text
      | Some m \<Rightarrow>
          Some (trim (case capture m 1 of
                        None \<Rightarrow> m_text m
                      | Some g \<Rightarrow> if g \<noteq> [] then g else m_text m)))"

definition extractLocation :: "jsstring \<Rightarrow> jsstring option" where
  "extractLocation text = location_loop location_patterns text"

text \<open>The class \<open>[\w\-./?%&=#]\<close> of the link patterns, and \<open>[\w-]\<close>.\<close>

definition url_chars :: regex where
  "url_chars = Cls False (CWord # chars ''-./?%&=#'')"

definition host_chars :: regex where
  "host_chars = Cls False [CWord, CChar 45]"

definition urlPattern :: regexp where
  "urlPattern =
     RegExp (Seq [lit ''http'', opt (lit ''s''), lit ''://'', plus (Seq [plus host_chars, lit ''.'']),
                  plus host_chars, opt (Seq [lit ''/'', star url_chars]),
                  alts [''job'', ''career'', ''position'', ''apply'', ''opening''],
                  opt (Seq [lit ''/'', star url_chars])]) ''gi''"

definition atsPattern :: regexp where
  "atsPattern =
     RegExp (Seq [lit ''http'', opt (lit ''s''), lit ''://'', opt (Seq [plus host_chars, lit ''.'']),
                  alts [''greenhouse'', ''lever'', ''workday'', ''icims'', ''smartrecruiters'',
                        ''ashbyhq'', ''jobvite'', ''bamboohr''],
                  star url_chars]) ''gi''"

definition extractJobLink :: "jsstring \<Rightarrow> jsstring option" where
  "extractJobLink text =
     (case match_global text urlPattern of
        Some (m # _) \<Rightarrow> Some m
      | _ \<Rightarrow>
          (case match_global text atsPattern of
             Some (m # _) \<Rightarrow> Some m
           | _ \<Rightarrow> None))"

subsection \<open>Follow-up date and the application record\<close>

definition generateFollowUpDate :: "int \<Rightarrow> jsstring \<Rightarrow> int \<Rightarrow> error + jsstring" where
  "generateFollowUpDate tza fromDate daysFromNow =
     (let d = Date_new tza fromDate;
          d' = setDate tza d (map_option (\<lambda>n. n + daysFromNow) (getDate tza d))
      in case toISOString d' of
           Inl e \<Rightarrow> Inl e
         | Inr s \<Rightarrow> Inr (first_piece 84 s))"

text \<open>\<open>x || undefined\<close> for a string or \<open>null\<close>.\<close>

definition or_undefined :: "jsstring option \<Rightarrow> jsstring option" where
  "or_undefined x = (case x of None \<Rightarrow> None | Some s \<Rightarrow> if s \<noteq> [] then Some s else None)"

fun category_text :: "EmailCategory \<Rightarrow> jsstring" where
  "category_text application_confirmation = str ''application_confirmation''"
| "category_text rejection = str ''rejection''"
| "category_text interview_invitation = str ''interview_invitation''"
| "category_text offer = str ''offer''"
| "category_text follow_up = str ''follow_up''"
| "category_text unknown = str ''unknown''"

definition parseJobApplication :: "int \<Rightarrow> ParsedEmail \<Rightarrow> EmailCategory \<Rightarrow> error + JobApplication" where
  "parseJobApplication tza email category =
     (let text = take 3000 (body email)
      in case extractCompany email text of
           Inl e \<Rightarrow> Inl e
         | Inr companyV \<Rightarrow>
      (case extractPosition email text of
           Inl e \<Rightarrow> Inl e
         | Inr positionV \<Rightarrow>
      (let salary = extractSalary text;
           loc = extractLocation text;
           link = extractJobLink (case htmlBody email of
                                    None \<Rightarrow> text
                                  | Some h \<Rightarrow> if h \<noteq> [] then h else text)
       in case (if category = application_confirmation
                then map_sum id Some (generateFollowUpDate tza (date email) 7)
                else if category = interview_invitation
                then map_sum id Some (generateFollowUpDate tza (date email) 1)
                else Inr None) of
            Inl e \<Rightarrow> Inl e
          | Inr followUp \<Rightarrow>
       (case toISOString (Date_new tza (date email)) of
            Inl e \<Rightarrow> Inl e
          | Inr isoText \<Rightarrow>
              Inr \<lparr>company = companyV,
                   position = positionV,
                   dateApplied = first_piece 84 isoText,
                   status = STATUS_MAP category,
                   salaryRange = or_undefined salary,
                   location = or_undefined loc,
                   jobLink = or_undefined link,
                   emailThreadLink = str ''https://mail.google.com/mail/u/0/#inbox/'' @ threadId email,
                   followUpDate = followUp,
                   notesText = str ''Auto-tracked from email: ''
                     @ str_replace (category_text category) (RegExp (lit ''_'') ''g'') (str '' ''),
                   sourceEmail = subject email\<rparr>))))"


section \<open>Facts about dates\<close>

lemma div_bounds:
  fixes x :: int
  assumes "0 < n"
  shows "n * (x div n) \<le> x" "x < n * (x div n) + n"
proof -
  have "x = n * (x div n) + x mod n" by simp
  moreover have "0 \<le> x mod n" "x mod n < n" using assms by simp_all
  ultimately show "n * (x div n) \<le> x" "x < n * (x div n) + n" by linarith+
qed

lemma DayFromYear_bounds:
  "146097 * (y - 1970) - 607 < 400 * DayFromYear y"
  "400 * DayFromYear y < 146097 * (y - 1970) + 593"
proof -
  define a where "a = (y - 1969) div 4"
  define b where "b = (y - 1901) div 100"
  define c where "c = (y - 1601) div 400"
  have a: "4 * a \<le> y - 1969" "y - 1969 < 4 * a + 4"
    unfolding a_def using div_bounds[of 4 "y - 1969"] by simp_all
  have b: "100 * b \<le> y - 1901" "y - 1901 < 100 * b + 100"
    unfolding b_def using div_bounds[of 100 "y - 1901"] by simp_all
  have c: "400 * c \<le> y - 1601" "y - 1601 < 400 * c + 400"
    unfolding c_def using div_bounds[of 400 "y - 1601"] by simp_all
  have f: "DayFromYear y = 365 * (y - 1970) + a - b + c"
    by (simp add: DayFromYear_def a_def b_def c_def)
  show "146097 * (y - 1970) - 607 < 400 * DayFromYear y"
    unfolding f using a b c by (simp add: algebra_simps)
  show "400 * DayFromYear y < 146097 * (y - 1970) + 593"
    unfolding f using a b c by (simp add: algebra_simps)
qed

text \<open>The year computed for a day is the year the day lies in.\<close>

lemma YearFromDay_correct:
  "DayFromYear (YearFromDay d) \<le> d" "d < DayFromYear (YearFromDay d + 1)"
proof -
  define k where "k = (400 * d) div 146097"
  define y where "y = 1970 + k"
  have k: "146097 * k \<le> 400 * d" "400 * d < 146097 * k + 146097"
    unfolding k_def using div_bounds[of 146097 "400 * d"] by simp_all
  have lo: "400 * DayFromYear (y - 1) < 146097 * (k - 1) + 593"
    using DayFromYear_bounds(2)[of "y - 1"] by (simp add: y_def algebra_simps)
  have hi: "146097 * (k + 2) - 607 < 400 * DayFromYear (y + 1 + 1)"
    using DayFromYear_bounds(1)[of "y + 1 + 1"] by (simp add: y_def algebra_simps)
  have r: "YearFromDay d =
      (if d < DayFromYear y then y - 1 else if DayFromYear (y + 1) \<le> d then y + 1 else y)"
    by (simp add: YearFromDay_def y_def k_def Let_def)
  have l1: "DayFromYear (y - 1) \<le> d" using lo k by (simp add: algebra_simps)
  have l2: "d < DayFromYear (y + 1 + 1)" using hi k by (simp add: algebra_simps)
  show "DayFromYear (YearFromDay d) \<le> d"
    unfolding r using l1 by simp
  show "d < DayFromYear (YearFromDay d + 1)"
    unfolding r using l2 by simp
qed

lemma MonthFromDay_range: "0 \<le> MonthFromDay d \<and> MonthFromDay d \<le> 11"
  by (simp add: MonthFromDay_def Let_def)

text \<open>
  Building a day from the year and month of a day and a shifted day of the month gives
  the day shifted by as much: this is what \<open>setDate(getDate() + n)\<close> relies on.
\<close>

lemma MakeDay_shift: "MakeDay (YearFromDay d) (MonthFromDay d) (DateFromDay d + n) = d + n"
proof -
  have m: "MonthFromDay d div 12 = 0" "MonthFromDay d mod 12 = MonthFromDay d"
    using MonthFromDay_range[of d] by simp_all
  show ?thesis
    by (simp add: MakeDay_def m DateFromDay_def Let_def)
qed

lemma setDate_shift:
  "setDate tza (Some t) (map_option (\<lambda>k. k + n) (getDate tza (Some t))) = TimeClip (t + n * msPerDay)"
proof -
  define lt where "lt = LocalTime tza t"
  have "MakeDate (MakeDay (YearFromTime lt) (MonthFromTime lt) (DateFromTime lt + n)) (TimeWithinDay lt)
        = lt + n * msPerDay"
    unfolding YearFromTime_def MonthFromTime_def DateFromTime_def MakeDay_shift MakeDate_def
    by (simp add: Day_def TimeWithinDay_def algebra_simps)
  then show ?thesis
    by (simp add: setDate_def getDate_def Let_def lt_def[symmetric] UTC_def)
       (simp add: lt_def LocalTime_def)
qed

lemma Day_shift: "Day (t + n * msPerDay) = Day t + n"
  by (simp add: Day_def msPerDay_def)

lemma digit_range: "48 \<le> digit v \<and> digit v \<le> 57"
  by (simp add: digit_def)

lemma date_string_no_T: "84 \<notin> set (date_string d)"
proof -
  have "digit v \<noteq> 84" for v
    using digit_range[of v] by simp
  then show ?thesis
    by (simp add: date_string_def year_string_def pad2_def)
qed

lemma date_string_nonempty: "date_string d \<noteq> []"
  by (simp add: date_string_def)

lemma first_piece_date: "first_piece 84 (date_string d @ 84 # s) = date_string d"
proof -
  have "\<forall>c\<in>set (date_string d). c \<noteq> 84"
    using date_string_no_T[of d] by blast
  then show ?thesis
    by (simp add: first_piece_def)
qed

lemma toISOString_date:
  "toISOString d = (case d of None \<Rightarrow> Inl RangeError | Some t \<Rightarrow> Inr (date_string (Day t) @ 84 # time_string t))"
  by (simp add: toISOString_def)

lemma generateFollowUpDate_eq:
  "generateFollowUpDate tza s n =
     (case Date_new tza s of
        None \<Rightarrow> Inl RangeError
      | Some t \<Rightarrow>
          (case TimeClip (t + n * msPerDay) of
             None \<Rightarrow> Inl RangeError
           | Some u \<Rightarrow> Inr (date_string (Day t + n))))"
proof (cases "Date_new tza s")
  case None
  then show ?thesis
    by (simp add: generateFollowUpDate_def setDate_def getDate_def toISOString_def)
next
  case (Some t)
  show ?thesis
  proof (cases "TimeClip (t + n * msPerDay)")
    case None
    with Some show ?thesis
      by (simp add: generateFollowUpDate_def setDate_shift toISOString_def)
  next
    case (Some u)
    then have u: "u = t + n * msPerDay" by (simp add: TimeClip_def split: if_splits)
    from Some \<open>Date_new tza s = Some t\<close> show ?thesis
      by (simp add: generateFollowUpDate_def setDate_shift toISOString_def first_piece_date u Day_shift)
  qed
qed

section \<open>The extractors raise no TypeError\<close>

text \<open>
  Capture group 1 takes part in every match of every pattern whose \<open>match[1]\<close> the
  source reads without a check, so the read never gives \<open>undefined\<close>.
\<close>

lemmas pattern_defs = lit_def alts_def chars_def rng_def star_def plus_def plus_lazy_def
  opt_def ws0_def ws1_def company_name_def stop_mark_def subject_stop_def title_def
  title_chars_def the_position_of_def

lemma exec_capture:
  "exec re s = Some m \<Longrightarrow> sets_cap n (source re) \<Longrightarrow> capture m n \<noteq> None"
  unfolding exec_def capture_def by (rule search_sets_cap)

lemma company_loop_returns:
  "list_all (\<lambda>p. sets_cap 1 (source p)) ps \<Longrightarrow> \<exists>r. company_loop ps text = Inr r"
proof (induction ps)
  case Nil
  show ?case by simp
next
  case (Cons p ps)
  then have p: "sets_cap 1 (source p)" and ih: "\<exists>r. company_loop ps text = Inr r"
    by simp_all
  show ?case
  proof (cases "exec p text")
    case None
    with ih show ?thesis by simp
  next
    case (Some m)
    from exec_capture[OF Some p] obtain g where g: "capture m 1 = Some g" by blast
    show ?thesis
      using Some g ih by (cases "cleanCompanyName g") auto
  qed
qed

lemma position_loop_returns:
  "list_all (\<lambda>p. sets_cap 1 (source p)) ps \<Longrightarrow> \<exists>r. position_loop ps text = Inr r"
proof (induction ps)
  case Nil
  show ?case by simp
next
  case (Cons p ps)
  then have p: "sets_cap 1 (source p)" and ih: "\<exists>r. position_loop ps text = Inr r"
    by simp_all
  show ?case
  proof (cases "exec p text")
    case None
    with ih show ?thesis by simp
  next
    case (Some m)
    from exec_capture[OF Some p] obtain g where g: "capture m 1 = Some g" by blast
    show ?thesis
      using Some g ih by (auto simp: Let_def)
  qed
qed

lemma body_company_patterns_capture:
  "list_all (\<lambda>p. sets_cap 1 (source p)) body_company_patterns"
  by (simp add: body_company_patterns_def pattern_defs)

lemma subject_company_patterns_capture:
  "list_all (\<lambda>p. sets_cap 1 (source p)) subject_company_patterns"
  by (simp add: subject_company_patterns_def pattern_defs)

lemma body_position_patterns_capture:
  "list_all (\<lambda>p. sets_cap 1 (source p)) body_position_patterns"
  by (simp add: body_position_patterns_def pattern_defs)

lemma subject_position_patterns_capture:
  "list_all (\<lambda>p. sets_cap 1 (source p)) subject_position_patterns"
  by (simp add: subject_position_patterns_def pattern_defs)

lemma extractCompanyFromBody_returns: "\<exists>r. extractCompanyFromBody text = Inr r"
  unfolding extractCompanyFromBody_def
  by (rule company_loop_returns[OF body_company_patterns_capture])

lemma extractCompanyFromSubject_returns: "\<exists>r. extractCompanyFromSubject text = Inr r"
  unfolding extractCompanyFromSubject_def
  by (rule company_loop_returns[OF subject_company_patterns_capture])

lemma extractCompanyFromSender_returns: "\<exists>r. extractCompanyFromSender frm = Inr r"
proof (cases "exec sender_name_pattern frm")
  case None
  then show ?thesis by (simp add: extractCompanyFromSender_def)
next
  case (Some m)
  have "sets_cap 1 (source sender_name_pattern)"
    by (simp add: sender_name_pattern_def pattern_defs)
  from exec_capture[OF Some this] obtain g where "capture m 1 = Some g" by blast
  with Some show ?thesis
    by (auto simp: extractCompanyFromSender_def Let_def split: option.splits)
qed

lemma extractCompanyFromDomain_returns: "\<exists>r. extractCompanyFromDomain frm = Inr r"
proof (cases "exec domain_pattern frm")
  case None
  then show ?thesis by (simp add: extractCompanyFromDomain_def)
next
  case (Some m)
  have "sets_cap 1 (source domain_pattern)"
    by (simp add: domain_pattern_def pattern_defs)
  from exec_capture[OF Some this] obtain g where "capture m 1 = Some g" by blast
  with Some show ?thesis
    by (auto simp: extractCompanyFromDomain_def Let_def)
qed

lemma extractCompany_returns: "\<exists>r. extractCompany email text = Inr r"
proof -
  obtain b where b: "extractCompanyFromBody text = Inr b"
    using extractCompanyFromBody_returns by blast
  obtain f where f: "extractCompanyFromSender (fromHeader email) = Inr f"
    using extractCompanyFromSender_returns by blast
  obtain s where s: "extractCompanyFromSubject (subject email) = Inr s"
    using extractCompanyFromSubject_returns by blast
  obtain d where d: "extractCompanyFromDomain (fromHeader email) = Inr d"
    using extractCompanyFromDomain_returns by blast
  show ?thesis
    by (simp add: extractCompany_def b f s d)
qed

lemma extractPositionFromBody_returns: "\<exists>r. extractPositionFromBody text = Inr r"
  unfolding extractPositionFromBody_def
  by (rule position_loop_returns[OF body_position_patterns_capture])

lemma extractPositionFromSubject_returns: "\<exists>r. extractPositionFromSubject text = Inr r"
  unfolding extractPositionFromSubject_def
  by (rule position_loop_returns[OF subject_position_patterns_capture])

lemma extractPosition_returns: "\<exists>r. extractPosition email text = Inr r"
proof -
  obtain b where b: "extractPositionFromBody text = Inr b"
    using extractPositionFromBody_returns by blast
  obtain s where s: "extractPositionFromSubject (subject email) = Inr s"
    using extractPositionFromSubject_returns by blast
  show ?thesis
    by (simp add: extractPosition_def b s Let_def split: option.splits)
qed

lemma parseJobApplication_cases:
  assumes "extractCompany email (take 3000 (body email)) = Inr c"
    and "extractPosition email (take 3000 (body email)) = Inr p"
  shows "parseJobApplication tza email category =
     (case (if category = application_confirmation
            then map_sum id Some (generateFollowUpDate tza (date email) 7)
            else if category = interview_invitation
            then map_sum id Some (generateFollowUpDate tza (date email) 1)
            else Inr None) of
        Inl e \<Rightarrow> Inl e
      | Inr followUp \<Rightarrow>
          (case toISOString (Date_new tza (date email)) of
             Inl e \<Rightarrow> Inl e
           | Inr isoText \<Rightarrow>
               Inr \<lparr>company = c, position = p, dateApplied = first_piece 84 isoText,
                    status = STATUS_MAP category,
                    salaryRange = or_undefined (extractSalary (take 3000 (body email))),
                    location = or_undefined (extractLocation (take 3000 (body email))),
                    jobLink = or_undefined (extractJobLink
                      (case htmlBody email of None \<Rightarrow> take 3000 (body email)
                       | Some h \<Rightarrow> if h \<noteq> [] then h else take 3000 (body email))),
                    emailThreadLink = str ''https://mail.google.com/mail/u/0/#inbox/'' @ threadId email,
                    followUpDate = followUp,
                    notesText = str ''Auto-tracked from email: ''
                      @ str_replace (category_text category) (RegExp (lit ''_'') ''g'') (str '' ''),
                    sourceEmail = subject email\<rparr>))"
  using assms by (simp add: parseJobApplication_def Let_def)

section \<open>Evaluation on concrete inputs\<close>

lemmas regex_eval = str_def lit_def alts_def chars_def rng_def star_def plus_def plus_lazy_def
  opt_def ws0_def ws1_def en_dash_def exec_def test_def capture_def ignoreCase_def multiline_def
  global_def rep.simps replace_all.simps match_all.simps split_loop.simps str_replace_def
  match_global_def str_split_def trim_def toLowerCase_def toUpperCase_def upperA_def lowerA_def
  isSpace_def isWhiteSpace_def isLineTerminator_def isDigit_def isWordChar_def first_piece_def
  Let_def

lemmas company_eval = GENERIC_SENDER_NAMES_def SENDER_SUFFIXES_def ATS_DOMAINS_def
  LEGAL_SUFFIXES_def WHITESPACE_RUNS_def bad_names_def cleanCompanyName_def company_name_def
  stop_mark_def body_company_patterns_def extractCompanyFromBody_def sender_name_pattern_def
  extractCompanyFromSender_def subject_stop_def subject_company_patterns_def
  extractCompanyFromSubject_def Object_prototype_properties_def knownSplits_def titleCase_def
  domain_pattern_def skip_domains_def extractCompanyFromDomain_def or_else_def isAts_def
  Unknown_Company_def extractCompany_def

lemmas position_eval = JOB_TITLE_KEYWORDS_def NOT_A_POSITION_def isValidPosition_def
  title_chars_def title_def the_position_of_def body_position_patterns_def
  extractPositionFromBody_def subject_position_patterns_def extractPositionFromSubject_def
  reply_prefix_def boilerplate_prefix_def trailing_part_def Unknown_Position_def
  extractPosition_def

lemmas fields_eval = amount_def range_mark_def salary_patterns_def extractSalary_def
  location_patterns_def extractLocation_def url_chars_def host_chars_def urlPattern_def
  atsPattern_def extractJobLink_def or_undefined_def

text \<open>An email with a date and nothing else, one with a date that is no date, and one
  from an address at the domain \<open>constructor.io\<close>.\<close>

definition plain_email :: ParsedEmail where
  "plain_email =
     \<lparr>messageId = str ''m1'', threadId = str ''t1'', fromHeader = [], subject = [],
      date = str ''2024-01-01T00:00:00Z'', body = [], htmlBody = None\<rparr>"


definition constructor_email :: ParsedEmail where
  "constructor_email =
     \<lparr>messageId = str ''m3'', threadId = str ''t3'', fromHeader = str ''jobs@constructor.io'',
      subject = [], date = str ''2024-01-01T00:00:00Z'', body = [], htmlBody = None\<rparr>"

lemma plain_company: "extractCompany plain_email [] = Inr (JString (str ''Unknown Company''))"
  by (simp add: plain_email_def regex_eval company_eval)

lemma plain_position: "extractPosition plain_email [] = Inr (str ''Unknown Position'')"
  by (simp add: plain_email_def regex_eval position_eval)

lemma empty_fields: "extractSalary [] = None" "extractLocation [] = None" "extractJobLink [] = None"
  by (simp_all add: regex_eval fields_eval)

lemma plain_date: "Date_new 0 (date plain_email) = Some 1704067200000"
  by (simp add: plain_email_def date_eval)


lemma plain_days:
  "date_string (Day 1704067200000) = str ''2024-01-01''"
  "date_string (Day 1704067200000 + 7) = str ''2024-01-08''"
  "date_string (Day 1704067200000 + 1) = str ''2024-01-02''"
  by (simp_all add: date_eval)

lemma constructor_company:
  "extractCompany constructor_email [] = Inr (JBuiltin (str ''constructor''))"
  by (simp add: constructor_email_def regex_eval company_eval)

lemma constructor_position: "extractPosition constructor_email [] = Inr (str ''Unknown Position'')"
  by (simp add: constructor_email_def regex_eval position_eval)


section \<open>What \<open>parseJobApplication\<close> returns\<close>

lemma parseJobApplication_unfold:
  "\<exists>c p. extractCompany email (take 3000 (body email)) = Inr c
     \<and> extractPosition email (take 3000 (body email)) = Inr p
     \<and> parseJobApplication tza email category =
     (case (if category = application_confirmation
            then map_sum id Some (generateFollowUpDate tza (date email) 7)
            else if category = interview_invitation
            then map_sum id Some (generateFollowUpDate tza (date email) 1)
            else Inr None) of
        Inl e \<Rightarrow> Inl e
      | Inr followUp \<Rightarrow>
          (case toISOString (Date_new tza (date email)) of
             Inl e \<Rightarrow> Inl e
           | Inr isoText \<Rightarrow>
               Inr \<lparr>company = c, position = p, dateApplied = first_piece 84 isoText,
                    status = STATUS_MAP category,
                    salaryRange = or_undefined (extractSalary (take 3000 (body email))),
                    location = or_undefined (extractLocation (take 3000 (body email))),
                    jobLink = or_undefined (extractJobLink
                      (case htmlBody email of None \<Rightarrow> take 3000 (body email)
                       | Some h \<Rightarrow> if h \<noteq> [] then h else take 3000 (body email))),
                    emailThreadLink = str ''https://mail.google.com/mail/u/0/#inbox/'' @ threadId email,
                    followUpDate = followUp,
                    notesText = str ''Auto-tracked from email: ''
                      @ str_replace (category_text category) (RegExp (lit ''_'') ''g'') (str '' ''),
                    sourceEmail = subject email\<rparr>))"
proof -
  obtain c where c: "extractCompany email (take 3000 (body email)) = Inr c"
    using extractCompany_returns by blast
  obtain p where p: "extractPosition email (take 3000 (body email)) = Inr p"
    using extractPosition_returns by blast
  from parseJobApplication_cases[OF c p] c p show ?thesis by blast
qed

text \<open>The number of days by which the follow-up date of a category lies after the email.\<close>

definition follow_up_days :: "EmailCategory \<Rightarrow> int option" where
  "follow_up_days category =
     (if category = application_confirmation then Some 7
      else if category = interview_invitation then Some 1 else None)"

lemma parseJobApplication_dates:
  "\<exists>c p. parseJobApplication tza email category =
     (case Date_new tza (date email) of
        None \<Rightarrow> Inl RangeError
      | Some t \<Rightarrow>
          (case (case follow_up_days category of
                   None \<Rightarrow> Inr None
                 | Some n \<Rightarrow>
                     (case TimeClip (t + n * msPerDay) of
                        None \<Rightarrow> Inl RangeError
                      | Some u \<Rightarrow> Inr (Some (date_string (Day t + n))))) of
             Inl e \<Rightarrow> Inl e
           | Inr followUp \<Rightarrow>
               Inr \<lparr>company = c, position = p, dateApplied = date_string (Day t),
                    status = STATUS_MAP category,
                    salaryRange = or_undefined (extractSalary (take 3000 (body email))),
                    location = or_undefined (extractLocation (take 3000 (body email))),
                    jobLink = or_undefined (extractJobLink
                      (case htmlBody email of None \<Rightarrow> take 3000 (body email)
                       | Some h \<Rightarrow> if h \<noteq> [] then h else take 3000 (body email))),
                    emailThreadLink = str ''https://mail.google.com/mail/u/0/#inbox/'' @ threadId email,
                    followUpDate = followUp,
                    notesText = str ''Auto-tracked from email: ''
                      @ str_replace (category_text category) (RegExp (lit ''_'') ''g'') (str '' ''),
                    sourceEmail = subject email\<rparr>))
     \<and> extractCompany email (take 3000 (body email)) = Inr c
     \<and> extractPosition email (take 3000 (body email)) = Inr p"
proof -
  from parseJobApplication_unfold[of email tza category] obtain c p where
    c: "extractCompany email (take 3000 (body email)) = Inr c" and
    p: "extractPosition email (take 3000 (body email)) = Inr p" and
    u: "parseJobApplication tza email category =
     (case (if category = application_confirmation
            then map_sum id Some (generateFollowUpDate tza (date email) 7)
            else if category = interview_invitation
            then map_sum id Some (generateFollowUpDate tza (date email) 1)
            else Inr None) of
        Inl e \<Rightarrow> Inl e
      | Inr followUp \<Rightarrow>
          (case toISOString (Date_new tza (date email)) of
             Inl e \<Rightarrow> Inl e
           | Inr isoText \<Rightarrow>
               Inr \<lparr>company = c, position = p, dateApplied = first_piece 84 isoText,
                    status = STATUS_MAP category,
                    salaryRange = or_undefined (extractSalary (take 3000 (body email))),
                    location = or_undefined (extractLocation (take 3000 (body email))),
                    jobLink = or_undefined (extractJobLink
                      (case htmlBody email of None \<Rightarrow> take 3000 (body email)
                       | Some h \<Rightarrow> if h \<noteq> [] then h else take 3000 (body email))),
                    emailThreadLink = str ''https://mail.google.com/mail/u/0/#inbox/'' @ threadId email,
                    followUpDate = followUp,
                    notesText = str ''Auto-tracked from email: ''
                      @ str_replace (category_text category) (RegExp (lit ''_'') ''g'') (str '' ''),
                    sourceEmail = subject email\<rparr>))"
    by blast
  show ?thesis
  proof (cases "Date_new tza (date email)")
    case None
    show ?thesis
      apply (rule exI[of _ c], rule exI[of _ p])
      apply (simp add: u c p None generateFollowUpDate_eq toISOString_def)
      done
  next
    case (Some t)
    show ?thesis
      apply (rule exI[of _ c], rule exI[of _ p])
      apply (simp add: u c p Some generateFollowUpDate_eq toISOString_def first_piece_date
          follow_up_days_def split: option.splits)
      done
  qed
qed

lemma plain_follow:
  "generateFollowUpDate 0 (date plain_email) 7 = Inr (str ''2024-01-08'')"
  "generateFollowUpDate 0 (date plain_email) 1 = Inr (str ''2024-01-02'')"
  by (simp_all add: generateFollowUpDate_eq plain_date plain_days TimeClip_def msPerDay_def)

lemma plain_applied:
  "map_sum id (first_piece 84) (toISOString (Date_new 0 (date plain_email))) = Inr (str ''2024-01-01'')"
proof -
  have "first_piece 84 (date_string (Day 1704067200000) @ 84 # time_string 1704067200000)
        = str ''2024-01-01''"
    unfolding first_piece_date by (rule plain_days)
  then show ?thesis
    by (simp add: plain_date toISOString_def)
qed

lemma plain_parse:
  "parseJobApplication 0 plain_email category =
     Inr \<lparr>company = JString (str ''Unknown Company''), position = str ''Unknown Position'',
          dateApplied = str ''2024-01-01'', status = STATUS_MAP category,
          salaryRange = None, location = None, jobLink = None,
          emailThreadLink = str ''https://mail.google.com/mail/u/0/#inbox/'' @ str ''t1'',
          followUpDate = (if category = application_confirmation then Some (str ''2024-01-08'')
                          else if category = interview_invitation then Some (str ''2024-01-02'')
                          else None),
          notesText = str ''Auto-tracked from email: ''
            @ str_replace (category_text category) (RegExp (lit ''_'') ''g'') (str '' ''),
          sourceEmail = []\<rparr>"
proof -
  have b: "take 3000 (body plain_email) = []" "htmlBody plain_email = None"
    "threadId plain_email = str ''t1''" "subject plain_email = []"
    by (simp_all add: plain_email_def)
  have c: "extractCompany plain_email (take 3000 (body plain_email)) = Inr (JString (str ''Unknown Company''))"
    by (simp only: b plain_company)
  have p: "extractPosition plain_email (take 3000 (body plain_email)) = Inr (str ''Unknown Position'')"
    by (simp only: b plain_position)
  obtain isoText where i: "toISOString (Date_new 0 (date plain_email)) = Inr isoText"
    "first_piece 84 isoText = str ''2024-01-01''"
    using plain_applied by (cases "toISOString (Date_new 0 (date plain_email))") auto
  show ?thesis
    unfolding parseJobApplication_cases[OF c p] b
    by (simp add: plain_follow i empty_fields or_undefined_def)
qed

lemma parseJobApplication_Inr:
  assumes "parseJobApplication tza email category = Inr app"
  shows "\<exists>c p t. extractCompany email (take 3000 (body email)) = Inr c
     \<and> extractPosition email (take 3000 (body email)) = Inr p
     \<and> Date_new tza (date email) = Some t
     \<and> app =
         \<lparr>company = c, position = p, dateApplied = date_string (Day t),
          status = STATUS_MAP category,
          salaryRange = or_undefined (extractSalary (take 3000 (body email))),
          location = or_undefined (extractLocation (take 3000 (body email))),
          jobLink = or_undefined (extractJobLink
            (case htmlBody email of None \<Rightarrow> take 3000 (body email)
             | Some h \<Rightarrow> if h \<noteq> [] then h else take 3000 (body email))),
          emailThreadLink = str ''https://mail.google.com/mail/u/0/#inbox/'' @ threadId email,
          followUpDate = (case follow_up_days category of None \<Rightarrow> None
                          | Some n \<Rightarrow> Some (date_string (Day t + n))),
          notesText = str ''Auto-tracked from email: ''
            @ str_replace (category_text category) (RegExp (lit ''_'') ''g'') (str '' ''),
          sourceEmail = subject email\<rparr>"
proof -
  from parseJobApplication_dates[of tza email category] obtain c p where
    r: "parseJobApplication tza email category =
     (case Date_new tza (date email) of
        None \<Rightarrow> Inl RangeError
      | Some t \<Rightarrow>
          (case (case follow_up_days category of
                   None \<Rightarrow> Inr None
                 | Some n \<Rightarrow>
                     (case TimeClip (t + n * msPerDay) of
                        None \<Rightarrow> Inl RangeError
                      | Some u \<Rightarrow> Inr (Some (date_string (Day t + n))))) of
             Inl e \<Rightarrow> Inl e
           | Inr followUp \<Rightarrow>
               Inr \<lparr>company = c, position = p, dateApplied = date_string (Day t),
                    status = STATUS_MAP category,
                    salaryRange = or_undefined (extractSalary (take 3000 (body email))),
                    location = or_undefined (extractLocation (take 3000 (body email))),
                    jobLink = or_undefined (extractJobLink
                      (case htmlBody email of None \<Rightarrow> take 3000 (body email)
                       | Some h \<Rightarrow> if h \<noteq> [] then h else take 3000 (body email))),
                    emailThreadLink = str ''https://mail.google.com/mail/u/0/#inbox/'' @ threadId email,
                    followUpDate = followUp,
                    notesText = str ''Auto-tracked from email: ''
                      @ str_replace (category_text category) (RegExp (lit ''_'') ''g'') (str '' ''),
                    sourceEmail = subject email\<rparr>))" and
    c: "extractCompany email (take 3000 (body email)) = Inr c" and
    p: "extractPosition email (take 3000 (body email)) = Inr p"
    by blast
  show ?thesis
  proof (cases "Date_new tza (date email)")
    case None
    with r assms show ?thesis by simp
  next
    case (Some t)
    show ?thesis
    proof (cases "follow_up_days category")
      case None
      with r assms Some c p show ?thesis by simp
    next
      case fu: (Some n)
      show ?thesis
      proof (cases "TimeClip (t + n * msPerDay)")
        case None
        with r assms Some fu show ?thesis by simp
      next
        case (Some u)
        with r assms \<open>Date_new tza (date email) = Some t\<close> fu c p show ?thesis by simp
      qed
    qed
  qed
qed

section \<open>The claims\<close>






text \<open>
  C6. The status of the record is the value of the table \<open>STATUS_MAP\<close> at the category.
\<close>

theorem status_of_category:
  assumes "parseJobApplication tza email category = Inr app"
  shows "status app =
     (case category of
        application_confirmation \<Rightarrow> Applied
      | rejection \<Rightarrow> Rejected
      | interview_invitation \<Rightarrow> Interview
      | offer \<Rightarrow> Offer
      | follow_up \<Rightarrow> Applied
      | unknown \<Rightarrow> Applied)"
proof -
  have "status app = STATUS_MAP category"
    using parseJobApplication_Inr[OF assms] by auto
  then show ?thesis by (cases category) simp_all
qed

theorem status_of_category_witness:
  "\<exists>a b. parseJobApplication 0 plain_email unknown = Inr a \<and> status a = Applied
       \<and> parseJobApplication 0 plain_email rejection = Inr b \<and> status b = Rejected"
proof -
  obtain a where a: "parseJobApplication 0 plain_email unknown = Inr a"
    by (simp add: plain_parse)
  obtain b where b: "parseJobApplication 0 plain_email rejection = Inr b"
    by (simp add: plain_parse)
  from status_of_category[OF a] status_of_category[OF b] a b show ?thesis by simp
qed


lemma or_else_truthy: "truthy b \<Longrightarrow> truthy (or_else a b)"
  by (cases a) (simp_all add: or_else_def)

lemma extractCompany_truthy: "extractCompany email text = Inr c \<Longrightarrow> truthy c"
proof -
  have u: "Unknown_Company \<noteq> []"
    by (simp add: Unknown_Company_def str_def)
  assume "extractCompany email text = Inr c"
  then show ?thesis
    by (auto simp: extractCompany_def u split: sum.splits if_splits intro!: or_else_truthy)
qed

lemma extractPosition_nonempty: "extractPosition email text = Inr p \<Longrightarrow> p \<noteq> []"
  by (auto simp: extractPosition_def Let_def Unknown_Position_def str_def
      split: sum.splits option.splits if_splits)

lemma or_undefined_nonempty: "or_undefined x \<noteq> Some []"
  by (simp add: or_undefined_def split: option.splits)

text \<open>
  No field of a returned record is the empty string: the company is a non-empty string
  or a built-in object, the position and the date applied are non-empty, and each of
  the optional fields is absent or non-empty.
\<close>

lemma fields_nonempty:
  assumes "parseJobApplication tza email category = Inr app"
  shows "truthy (company app) \<and> position app \<noteq> [] \<and> dateApplied app \<noteq> []
     \<and> salaryRange app \<noteq> Some [] \<and> location app \<noteq> Some [] \<and> jobLink app \<noteq> Some []
     \<and> followUpDate app \<noteq> Some []"
proof -
  from parseJobApplication_Inr[OF assms] obtain c p t where
    c: "extractCompany email (take 3000 (body email)) = Inr c" and
    p: "extractPosition email (take 3000 (body email)) = Inr p" and
    f: "company app = c" "position app = p" "dateApplied app = date_string (Day t)"
       "salaryRange app = or_undefined (extractSalary (take 3000 (body email)))"
       "location app = or_undefined (extractLocation (take 3000 (body email)))"
       "jobLink app = or_undefined (extractJobLink
            (case htmlBody email of None \<Rightarrow> take 3000 (body email)
             | Some h \<Rightarrow> if h \<noteq> [] then h else take 3000 (body email)))"
       "followUpDate app = (case follow_up_days category of None \<Rightarrow> None
                          | Some n \<Rightarrow> Some (date_string (Day t + n)))"
    by auto
  show ?thesis
    unfolding f
    using extractCompany_truthy[OF c] extractPosition_nonempty[OF p]
    by (simp add: or_undefined_nonempty date_string_nonempty split: option.splits)
qed

text \<open>
  C7. The company of a returned record is not always a string: for a sender at the domain
  \<open>constructor.io\<close> and no other signal, \<open>titleCase\<close> finds the inherited property
  \<open>constructor\<close> of the object literal \<open>knownSplits\<close> and returns the built-in function
  \<open>Object\<close>, which becomes the company.
\<close>

theorem constructor_company_not_a_string:
  "map_sum id company (parseJobApplication 0 constructor_email rejection)
     = Inr (JBuiltin (str ''constructor''))"
proof -
  have b: "take 3000 (body constructor_email) = []"
    by (simp add: constructor_email_def)
  have c: "extractCompany constructor_email (take 3000 (body constructor_email))
      = Inr (JBuiltin (str ''constructor''))"
    by (simp only: b constructor_company)
  have p: "extractPosition constructor_email (take 3000 (body constructor_email))
      = Inr (str ''Unknown Position'')"
    by (simp only: b constructor_position)
  have d: "Date_new 0 (date constructor_email) = Some 1704067200000"
    by (simp add: constructor_email_def date_eval)
  show ?thesis
    unfolding parseJobApplication_cases[OF c p]
    by (simp add: d toISOString_def)
qed

text \<open>
  C8. \<open>parseJobApplication\<close> reads the body through \<open>slice(0, 3000)\<close> only: two emails
  that agree on the first 3000 code units of the body and on the subject, sender header,
  date, thread id and HTML body give the same result, for every category.
\<close>

theorem body_prefix_only:
  assumes "take 3000 (body e1) = take 3000 (body e2)"
    and "subject e1 = subject e2" and "fromHeader e1 = fromHeader e2"
    and "date e1 = date e2" and "threadId e1 = threadId e2" and "htmlBody e1 = htmlBody e2"
  shows "parseJobApplication tza e1 category = parseJobApplication tza e2 category"
  unfolding parseJobApplication_def extractCompany_def extractPosition_def isAts_def assms
  by (rule refl)

definition long_email :: "jsstring \<Rightarrow> ParsedEmail" where
  "long_email tail =
     \<lparr>messageId = tail, threadId = str ''t4'', fromHeader = str ''Acme <jobs@acme.com>'',
      subject = str ''Your application'', date = str ''2024-01-01T00:00:00Z'',
      body = replicate 3000 120 @ tail, htmlBody = None\<rparr>"

theorem body_prefix_only_witness:
  "body (long_email (str ''job offer'')) \<noteq> body (long_email (str ''unfortunately''))
   \<and> take 3000 (body (long_email (str ''job offer'')))
       = take 3000 (body (long_email (str ''unfortunately'')))
   \<and> parseJobApplication 0 (long_email (str ''job offer'')) offer
       = parseJobApplication 0 (long_email (str ''unfortunately'')) offer"
  using body_prefix_only[of "long_email (str ''job offer'')" "long_email (str ''unfortunately'')" 0 offer]
  by (simp add: long_email_def str_def)

lemma search_iff:
  "(search ic ml r pre p s \<noteq> None) =
     (\<exists>a b. s = a @ b \<and> run ic ml r (MState (if a = [] then p else Some (last a)) b []) \<noteq> [])"
proof (induction s arbitrary: pre p)
  case Nil
  show ?case by (simp split: list.splits)
next
  case (Cons c s)
  show ?case
  proof (cases "run ic ml r (MState p (c # s) [])")
    case (Cons y ys)
    then have "\<exists>a b. c # s = a @ b
        \<and> run ic ml r (MState (if a = [] then p else Some (last a)) b []) \<noteq> []"
      by (intro exI[of _ "[]"] exI[of _ "c # s"]) simp
    with Cons show ?thesis by simp
  next
    case Nil
    have "(\<exists>a b. s = a @ b \<and> run ic ml r (MState (if a = [] then Some c else Some (last a)) b []) \<noteq> [])
        = (\<exists>a b. c # s = a @ b \<and> run ic ml r (MState (if a = [] then p else Some (last a)) b []) \<noteq> [])"
      (is "?L = ?R")
    proof
      assume ?L
      then obtain a b where ab: "s = a @ b"
        "run ic ml r (MState (if a = [] then Some c else Some (last a)) b []) \<noteq> []" by blast
      then show ?R
        by (intro exI[of _ "c # a"] exI[of _ b]) auto
    next
      assume ?R
      then obtain a b where ab: "c # s = a @ b"
        "run ic ml r (MState (if a = [] then p else Some (last a)) b []) \<noteq> []" by blast
      with Nil have "a \<noteq> []" by auto
      with ab(1) obtain a' where a': "a = c # a'" "s = a' @ b"
        by (cases a) auto
      with ab(2) show ?L
        by (intro exI[of _ a'] exI[of _ b]) auto
    qed
    with Nil Cons.IH[of "pre @ [c]" "Some c"] show ?thesis by simp
  qed
qed

text \<open>
  \<open>re.test(s)\<close> is unanchored: it holds when the pattern matches from some position of
  \<open>s\<close> on.
\<close>

lemma test_iff:
  "test re s =
     (\<exists>a b. s = a @ b \<and> run (ignoreCase re) (multiline re) (source re)
        (MState (if a = [] then None else Some (last a)) b []) \<noteq> [])"
  unfolding test_def exec_def by (rule search_iff)

text \<open>Some pattern of the group of a category matches the text.\<close>

definition group_matches :: "EmailCategory \<Rightarrow> jsstring \<Rightarrow> bool" where
  "group_matches category text =
     list_ex (\<lambda>g. fst g = category \<and> list_ex (\<lambda>p. test p text) (snd g)) CATEGORY_PATTERNS"

lemma classify_loop_groups:
  "classify_loop [(c1, ps1), (c2, ps2), (c3, ps3), (c4, ps4), (c5, ps5)] text =
     (if list_ex (\<lambda>p. test p text) ps1 then c1
      else if list_ex (\<lambda>p. test p text) ps2 then c2
      else if list_ex (\<lambda>p. test p text) ps3 then c3
      else if list_ex (\<lambda>p. test p text) ps4 then c4
      else if list_ex (\<lambda>p. test p text) ps5 then c5 else unknown)"
  by simp

lemma classifyEmail_order:
  "classifyEmail email =
     (if group_matches offer (subject email @ str '' '' @ body email) then offer
      else if group_matches interview_invitation (subject email @ str '' '' @ body email)
        then interview_invitation
      else if group_matches rejection (subject email @ str '' '' @ body email) then rejection
      else if group_matches application_confirmation (subject email @ str '' '' @ body email)
        then application_confirmation
      else if group_matches follow_up (subject email @ str '' '' @ body email) then follow_up
      else unknown)"
  unfolding classifyEmail_def group_matches_def CATEGORY_PATTERNS_def classify_loop_groups
  by simp

lemma category_flags:
  "list_all (\<lambda>g. list_all (\<lambda>p. flags p = ''i'') (snd g)) CATEGORY_PATTERNS"
  by (simp add: CATEGORY_PATTERNS_def)


lemma lit_run_iff:
  "(lit_run True w (MState p s cs) \<noteq> []) =
     (length w \<le> length s \<and> map upperA (take (length w) s) = map upperA w)"
proof (induction w arbitrary: p s)
  case Nil
  show ?case by simp
next
  case (Cons a w)
  show ?case
  proof (cases s)
    case Nil
    then show ?thesis by simp
  next
    case (Cons c t)
    with Cons.IH[of "Some c" t] show ?thesis by auto
  qed
qed

text \<open>
  A literal pattern with the \<open>i\<close> flag matches a text exactly when the literal occurs
  somewhere in it, letter case apart.
\<close>

lemma test_literal:
  "test (RegExp (Lit w) ''i'') s = (\<exists>a m b. s = a @ m @ b \<and> map upperA m = map upperA w)"
proof -
  have "test (RegExp (Lit w) ''i'') s =
      (\<exists>a b. s = a @ b \<and> length w \<le> length b \<and> map upperA (take (length w) b) = map upperA w)"
    by (simp add: test_iff ignoreCase_def multiline_def lit_run_iff)
  also have "\<dots> = (\<exists>a m b. s = a @ m @ b \<and> map upperA m = map upperA w)"
  proof
    assume "\<exists>a b. s = a @ b \<and> length w \<le> length b \<and> map upperA (take (length w) b) = map upperA w"
    then obtain a b where ab: "s = a @ b" "length w \<le> length b"
      "map upperA (take (length w) b) = map upperA w" by blast
    then have "s = a @ take (length w) b @ drop (length w) b" by simp
    with ab(3) show "\<exists>a m b. s = a @ m @ b \<and> map upperA m = map upperA w" by blast
  next
    assume "\<exists>a m b. s = a @ m @ b \<and> map upperA m = map upperA w"
    then obtain a m b where amb: "s = a @ m @ b" "map upperA m = map upperA w" by blast
    from amb(2) have "length m = length w" by (metis length_map)
    with amb show "\<exists>a b. s = a @ b \<and> length w \<le> length b
        \<and> map upperA (take (length w) b) = map upperA w"
      by (intro exI[of _ a] exI[of _ "m @ b"]) simp
  qed
  finally show ?thesis .
qed

text \<open>An email that speaks of an offer in the subject and regrets in the body.\<close>

definition offer_email :: ParsedEmail where
  "offer_email =
     \<lparr>messageId = str ''m5'', threadId = str ''t5'', fromHeader = [], subject = str ''Job offer'',
      date = str ''2024-01-01T00:00:00Z'', body = str ''Unfortunately'', htmlBody = None\<rparr>"

lemma offer_email_matches:
  "group_matches offer (subject offer_email @ str '' '' @ body offer_email)"
  "group_matches rejection (subject offer_email @ str '' '' @ body offer_email)"
  by (simp_all add: offer_email_def group_matches_def CATEGORY_PATTERNS_def regex_eval)

lemma offer_email_class: "classifyEmail offer_email = offer"
  by (simp add: classifyEmail_order offer_email_matches)

text \<open>
  C2. \<open>classifyEmail\<close> tries the groups in the order offer, interview_invitation,
  rejection, application_confirmation, follow_up on the subject, a space and the body,
  and returns the category of the first group of which a pattern matches, or
  \<open>unknown\<close>. Every pattern of the table has the flag \<open>i\<close> and no other, and a pattern
  matches when it matches from some position of the text on. A text that matches both an
  offer pattern and a rejection pattern is classified as offer.
\<close>

theorem classifyEmail_priority:
  "classifyEmail email =
     (if group_matches offer (subject email @ str '' '' @ body email) then offer
      else if group_matches interview_invitation (subject email @ str '' '' @ body email)
        then interview_invitation
      else if group_matches rejection (subject email @ str '' '' @ body email) then rejection
      else if group_matches application_confirmation (subject email @ str '' '' @ body email)
        then application_confirmation
      else if group_matches follow_up (subject email @ str '' '' @ body email) then follow_up
      else unknown)
   \<and> map fst CATEGORY_PATTERNS
       = [offer, interview_invitation, rejection, application_confirmation, follow_up]
   \<and> list_all (\<lambda>g. list_all (\<lambda>p. flags p = ''i'') (snd g)) CATEGORY_PATTERNS
   \<and> (\<forall>re s. test re s =
         (\<exists>a b. s = a @ b \<and> run (ignoreCase re) (multiline re) (source re)
            (MState (if a = [] then None else Some (last a)) b []) \<noteq> []))
   \<and> (group_matches offer (subject email @ str '' '' @ body email)
        \<and> group_matches rejection (subject email @ str '' '' @ body email)
       \<longrightarrow> classifyEmail email = offer)"
proof -
  have "map fst CATEGORY_PATTERNS
       = [offer, interview_invitation, rejection, application_confirmation, follow_up]"
    by (simp add: CATEGORY_PATTERNS_def)
  with classifyEmail_order[of email] category_flags test_iff show ?thesis
    by simp
qed

theorem classifyEmail_priority_witness:
  "group_matches offer (subject offer_email @ str '' '' @ body offer_email)
   \<and> group_matches rejection (subject offer_email @ str '' '' @ body offer_email)
   \<and> classifyEmail offer_email = offer"
  using classifyEmail_priority[of offer_email] offer_email_matches by blast

subsection \<open>The second copy of the classifier\<close>

text \<open>
  The source file holds a second, older copy of the service after the first. Its table
  and its \<open>classifyEmail\<close> are the following.
\<close>

definition CATEGORY_PATTERNS_2 :: "(EmailCategory \<times> regexp list) list" where
  "CATEGORY_PATTERNS_2 =
     [(offer,
       [RegExp (lit ''offer letter'') ''i'',
        RegExp (lit ''job offer'') ''i'',
        RegExp (lit ''we are pleased to offer'') ''i'',
        RegExp (lit ''extend an offer'') ''i'',
        RegExp (lit ''offer of employment'') ''i'',
        RegExp (Seq [lit ''congratulations'', star Dot, lit ''offer'']) ''i'']),
      (interview_invitation,
       [RegExp (Seq [lit ''schedule'', star Dot, lit ''interview'']) ''i'',
        RegExp (Seq [lit ''interview'', star Dot, lit ''schedule'']) ''i'',
        RegExp (lit ''phone screen'') ''i'',
        RegExp (lit ''invite you to interview'') ''i'',
        RegExp (lit ''like to schedule'') ''i'',
        RegExp (Seq [lit ''next steps'', star Dot, lit ''interview'']) ''i'',
        RegExp (lit ''technical assessment'') ''i'',
        RegExp (lit ''coding challenge'') ''i'',
        RegExp (lit ''take-home'') ''i'',
        RegExp (lit ''onsite interview'') ''i'',
        RegExp (lit ''virtual interview'') ''i'',
        RegExp (lit ''meet the team'') ''i'']),
      (rejection,
       [RegExp (lit ''unfortunately'') ''i'',
        RegExp (lit ''not moving forward'') ''i'',
        RegExp (lit ''other candidates'') ''i'',
        RegExp (lit ''position has been filled'') ''i'',
        RegExp (lit ''decided not to proceed'') ''i'',
        RegExp (lit ''will not be moving'') ''i'',
        RegExp (lit ''not be able to offer'') ''i'',
        RegExp (lit ''pursue other candidates'') ''i'',
        RegExp (lit ''after careful consideration'') ''i'',
        RegExp (lit ''regret to inform'') ''i'',
        RegExp (Seq [lit ''won'', Lit [39], lit ''t be moving forward'']) ''i'']),
      (application_confirmation,
       [RegExp (Seq [lit ''application'', star Dot, lit ''received'']) ''i'',
        RegExp (lit ''thank you for applying'') ''i'',
        RegExp (Seq [lit ''application'', star Dot, lit ''submitted'']) ''i'',
        RegExp (lit ''we received your application'') ''i'',
        RegExp (lit ''application confirmation'') ''i'',
        RegExp (lit ''successfully applied'') ''i'',
        RegExp (Seq [lit ''application'', star Dot, lit ''review'']) ''i'']),
      (follow_up,
       [RegExp (lit ''following up'') ''i'',
        RegExp (lit ''checking in'') ''i'',
        RegExp (lit ''update on your application'') ''i'',
        RegExp (Seq [lit ''status'', star Dot, lit ''application'']) ''i'',
        RegExp (lit ''wanted to reach out'') ''i''])]"

definition classifyEmail_2 :: "ParsedEmail \<Rightarrow> EmailCategory" where
  "classifyEmail_2 email = classify_loop CATEGORY_PATTERNS_2 (subject email @ str '' '' @ body email)"

text \<open>C9. The two copies of \<open>classifyEmail\<close> return the same category for every email.\<close>

theorem classifyEmail_copies_agree: "classifyEmail_2 email = classifyEmail email"
  unfolding classifyEmail_2_def classifyEmail_def CATEGORY_PATTERNS_2_def CATEGORY_PATTERNS_def
  by (rule refl)

theorem classifyEmail_copies_agree_witness: "classifyEmail_2 offer_email = offer"
  using classifyEmail_copies_agree[of offer_email] offer_email_class by simp


section \<open>Company candidates\<close>






lemma company_loop_skip:
  assumes "exec p text = Some m" and "capture m 1 = Some g" and "cleanCompanyName g = Some n"
    and "length n < 2 \<or> 80 \<le> length n"
  shows "company_loop (p # ps) text = company_loop ps text"
  using assms by auto


lemma extractCompanyFromSender_skip:
  assumes "exec sender_name_pattern frm = Some m" and "capture m 1 = Some g"
    and "cleanCompanyName (trim g) = Some n" and "length n < 2 \<or> 80 \<le> length n"
  shows "extractCompanyFromSender frm = Inr None"
  using assms by (auto simp: extractCompanyFromSender_def Let_def)

text \<open>The first candidate that is not \<open>null\<close>, or the default.\<close>

fun first_non_null :: "jsvalue option list \<Rightarrow> jsvalue \<Rightarrow> jsvalue" where
  "first_non_null [] dflt = dflt"
| "first_non_null (None # cs) dflt = first_non_null cs dflt"
| "first_non_null (Some v # cs) dflt = v"

lemma or_else_first: "(\<And>v. a = Some v \<Longrightarrow> truthy v) \<Longrightarrow> or_else a b = first_non_null [a] b"
  by (cases a) (simp_all add: or_else_def)

































end
